theory Spec2Isabelle
  imports Main "HOL-Library.Sublist"
begin

section \<open>Python values\<close>

text \<open>
  The two scripts handle decoded JSON documents and plain keyword arguments. A value is
  one of Python's JSON-compatible objects. A dict keeps its insertion order, so it is an
  association list; its keys are strings, as the keys of every decoded JSON object and of
  every query-parameter mapping built here are. A character is a code point below 256.
  The scripts never compute with a float: one is carried as the text Python's
  \<^verbatim>\<open>repr\<close> gives it (\<^verbatim>\<open>0.0\<close>, \<^verbatim>\<open>1.5\<close>, \<^verbatim>\<open>nan\<close>).
\<close>

datatype py =
    PNone
  | PBool bool
  | PInt int
  | PFloat string
  | PStr string
  | PList "py list"
  | PDict "(string \<times> py) list"

text \<open>The exceptions that reach the scripts; none of them is caught anywhere.\<close>

datatype exn =
    KeyError py
  | IndexError
  | TypeError
  | AttributeError
  | JSONDecodeError
  | ConnectionError
  | OSError
  | TimeoutException
  | WebDriverException
  | JavascriptException

text \<open>Truth value testing, as \<^verbatim>\<open>if x:\<close> does it.\<close>

fun py_truthy :: "py \<Rightarrow> bool" where
  "py_truthy PNone = False"
| "py_truthy (PBool b) = b"
| "py_truthy (PInt i) = (i \<noteq> 0)"
| "py_truthy (PFloat r) = (r \<noteq> ''0.0'' \<and> r \<noteq> ''-0.0'')"
| "py_truthy (PStr s) = (s \<noteq> [])"
| "py_truthy (PList xs) = (xs \<noteq> [])"
| "py_truthy (PDict kvs) = (kvs \<noteq> [])"

text \<open>\<^verbatim>\<open>d[k] = v\<close> on a dict: an existing key keeps its place, a new one goes last.\<close>

fun py_setitem :: "(string \<times> py) list \<Rightarrow> string \<Rightarrow> py \<Rightarrow> (string \<times> py) list" where
  "py_setitem [] k v = [(k, v)]"
| "py_setitem ((k', v') # kvs) k v =
     (if k' = k then (k, v) # kvs else (k', v') # py_setitem kvs k v)"

text \<open>
  \<^verbatim>\<open>x.get(k, default)\<close>: only a dict has the method; on any other JSON value the
  attribute lookup raises AttributeError.
\<close>

fun py_get :: "py \<Rightarrow> string \<Rightarrow> py \<Rightarrow> exn + py" where
  "py_get (PDict kvs) k d = (case map_of kvs k of Some v \<Rightarrow> Inr v | None \<Rightarrow> Inr d)"
| "py_get _ k d = Inl AttributeError"

text \<open>
  \<^verbatim>\<open>x[k]\<close>. A dict raises KeyError on a missing key (and TypeError on an unhashable
  one); a list or a string takes an integer (a bool is one), counts a negative index
  from the end and raises IndexError out of range; every other value is not
  subscriptable.
\<close>

fun py_index :: "py \<Rightarrow> int option" where
  "py_index (PInt i) = Some i"
| "py_index (PBool b) = Some (if b then 1 else 0)"
| "py_index _ = None"

definition seq_item :: "'a list \<Rightarrow> int \<Rightarrow> exn + 'a" where
  "seq_item xs i =
     (if 0 \<le> i \<and> i < int (length xs) then Inr (xs ! nat i)
      else if i < 0 \<and> - i \<le> int (length xs) then Inr (xs ! nat (int (length xs) + i))
      else Inl IndexError)"

fun py_getitem :: "py \<Rightarrow> py \<Rightarrow> exn + py" where
  "py_getitem (PDict kvs) k =
     (case k of
        PStr s \<Rightarrow> (case map_of kvs s of Some v \<Rightarrow> Inr v | None \<Rightarrow> Inl (KeyError k))
      | PList _ \<Rightarrow> Inl TypeError
      | PDict _ \<Rightarrow> Inl TypeError
      | _ \<Rightarrow> Inl (KeyError k))"
| "py_getitem (PList xs) k =
     (case py_index k of None \<Rightarrow> Inl TypeError | Some i \<Rightarrow> seq_item xs i)"
| "py_getitem (PStr s) k =
     (case py_index k of
        None \<Rightarrow> Inl TypeError
      | Some i \<Rightarrow> (case seq_item s i of Inl e \<Rightarrow> Inl e | Inr c \<Rightarrow> Inr (PStr [c])))"
| "py_getitem _ k = Inl TypeError"

text \<open>
  What a \<^verbatim>\<open>for\<close> loop runs over: the items of a list, the keys of a dict, the
  characters of a string; any other value is not iterable.
\<close>

fun py_iter :: "py \<Rightarrow> exn + py list" where
  "py_iter (PList xs) = Inr xs"
| "py_iter (PDict kvs) = Inr (map (\<lambda>kv. PStr (fst kv)) kvs)"
| "py_iter (PStr s) = Inr (map (\<lambda>c. PStr [c]) s)"
| "py_iter _ = Inl TypeError"

subsection \<open>Text of a value: \<^verbatim>\<open>str\<close>, \<^verbatim>\<open>repr\<close> and \<^verbatim>\<open>json.dump\<close>\<close>

fun show_nat :: "nat \<Rightarrow> string" where
  "show_nat n =
     (if n < 10 then [''0123456789'' ! n]
      else show_nat (n div 10) @ [''0123456789'' ! (n mod 10)])"

declare show_nat.simps [simp del]

definition show_int :: "int \<Rightarrow> string" where
  "show_int i = (if i < 0 then CHR ''-'' # show_nat (nat (- i)) else show_nat (nat i))"

definition hex2 :: "char \<Rightarrow> string" where
  "hex2 c = (let n = (of_char c :: nat) in
     [''0123456789abcdef'' ! (n div 16), ''0123456789abcdef'' ! (n mod 16)])"

primrec join :: "string \<Rightarrow> string list \<Rightarrow> string" where
  "join sep [] = []"
| "join sep (x # xs) = x @ concat (map (\<lambda>y. sep @ y) xs)"

text \<open>
  \<^verbatim>\<open>repr\<close> of a string: single quotes unless the text has a single quote and no
  double quote; the quote and the backslash are escaped, tab, newline and return have
  their letters, and every other unprintable character is written \<^verbatim>\<open>\xhh\<close>.
\<close>

definition repr_quote :: "string \<Rightarrow> char" where
  "repr_quote s = (if CHR 0x27 \<in> set s \<and> CHR 0x22 \<notin> set s then CHR 0x22 else CHR 0x27)"

definition printable :: "char \<Rightarrow> bool" where
  "printable c = (let n = (of_char c :: nat) in
     (32 \<le> n \<and> n < 127) \<or> (160 < n \<and> n \<noteq> 173))"

definition repr_char :: "char \<Rightarrow> char \<Rightarrow> string" where
  "repr_char q c =
     (if c = q \<or> c = CHR 0x5C then [CHR 0x5C, c]
      else if c = CHR 0x09 then [CHR 0x5C, CHR ''t'']
      else if c = CHR 0x0A then [CHR 0x5C, CHR ''n'']
      else if c = CHR 0x0D then [CHR 0x5C, CHR ''r'']
      else if printable c then [c]
      else [CHR 0x5C, CHR ''x''] @ hex2 c)"

definition repr_str :: "string \<Rightarrow> string" where
  "repr_str s = (let q = repr_quote s in [q] @ concat (map (repr_char q) s) @ [q])"

primrec py_repr :: "py \<Rightarrow> string" where
  "py_repr PNone = ''None''"
| "py_repr (PBool b) = (if b then ''True'' else ''False'')"
| "py_repr (PInt i) = show_int i"
| "py_repr (PFloat r) = r"
| "py_repr (PStr s) = repr_str s"
| "py_repr (PList xs) = ''['' @ join '', '' (map py_repr xs) @ '']''"
| "py_repr (PDict kvs) =
     ''{'' @ join '', '' (map (\<lambda>(k, r). repr_str k @ '': '' @ r) (map (map_prod id py_repr) kvs))
       @ ''}''"

text \<open>What an f-string field \<^verbatim>\<open>{x}\<close> inserts: \<^verbatim>\<open>str(x)\<close>.\<close>

definition py_str :: "py \<Rightarrow> string" where
  "py_str v = (case v of PStr s \<Rightarrow> s | _ \<Rightarrow> py_repr v)"

text \<open>
  \<^verbatim>\<open>json.dump(obj, f, indent=2)\<close> with the module's defaults: ASCII only, items one
  per line and indented by two spaces per level, \<^verbatim>\<open>[]\<close> and \<^verbatim>\<open>{}\<close> for the
  empty containers.
\<close>

definition json_char :: "char \<Rightarrow> string" where
  "json_char c =
     (if c = CHR 0x22 \<or> c = CHR 0x5C then [CHR 0x5C, c]
      else if c = CHR 0x0A then [CHR 0x5C, CHR ''n'']
      else if c = CHR 0x0D then [CHR 0x5C, CHR ''r'']
      else if c = CHR 0x09 then [CHR 0x5C, CHR ''t'']
      else if c = CHR 0x08 then [CHR 0x5C, CHR ''b'']
      else if c = CHR 0x0C then [CHR 0x5C, CHR ''f'']
      else if 32 \<le> (of_char c :: nat) \<and> (of_char c :: nat) < 127 then [c]
      else [CHR 0x5C, CHR ''u'', CHR ''0'', CHR ''0''] @ hex2 c)"

definition json_string :: "string \<Rightarrow> string" where
  "json_string s = [CHR 0x22] @ concat (map json_char s) @ [CHR 0x22]"

definition json_float :: "string \<Rightarrow> string" where
  "json_float r =
     (if r = ''nan'' then ''NaN'' else if r = ''inf'' then ''Infinity''
      else if r = ''-inf'' then ''-Infinity'' else r)"

definition newline_indent :: "nat \<Rightarrow> string" where
  "newline_indent lv = CHR 0x0A # replicate (2 * lv) CHR '' ''"

definition json_block :: "char \<Rightarrow> char \<Rightarrow> string list \<Rightarrow> nat \<Rightarrow> string" where
  "json_block l r items lv =
     (if items = [] then [l, r]
      else [l] @ newline_indent (Suc lv) @ join (CHR '','' # newline_indent (Suc lv)) items
             @ newline_indent lv @ [r])"

primrec json_dumps :: "py \<Rightarrow> nat \<Rightarrow> string" where
  "json_dumps PNone lv = ''null''"
| "json_dumps (PBool b) lv = (if b then ''true'' else ''false'')"
| "json_dumps (PInt i) lv = show_int i"
| "json_dumps (PFloat r) lv = json_float r"
| "json_dumps (PStr s) lv = json_string s"
| "json_dumps (PList xs) lv =
     json_block CHR ''['' CHR '']'' (map (\<lambda>d. d (Suc lv)) (map json_dumps xs)) lv"
| "json_dumps (PDict kvs) lv =
     json_block CHR ''{'' CHR ''}''
       (map (\<lambda>(k, d). json_string k @ '': '' @ d (Suc lv)) (map (map_prod id json_dumps) kvs)) lv"

section \<open>The world the scripts act on\<close>

text \<open>
  Both scripts are sequences of blocking calls on collaborators that are not part of
  them: the HTTP layer, the browser driver, the file system and the console. A run is a
  function of the collaborators' answers and of the state of the world; it returns either
  the raised exception (\<open>Inl\<close>) or the value, and the new state. The state keeps the
  files and the trace of every call on a collaborator, in order. The HTTP layer, the
  decoding of a body and every call on the browser may raise; the console and the file
  system are taken to accept every print and every write.
\<close>

record request =
  req_url :: string
  req_headers :: "(string \<times> string) list"
  req_params :: "(string \<times> py) list option"

text \<open>
  A response of the HTTP layer: \<open>ok\<close> is \<^verbatim>\<open>response.ok\<close>, \<open>body_json\<close> what
  \<^verbatim>\<open>response.json()\<close> decodes, \<open>None\<close> when the body is not JSON.
\<close>

record response =
  ok :: bool
  body_json :: "py option"

type_synonym server = "request \<Rightarrow> exn + response"

text \<open>The two scripts the browser script runs in the page.\<close>

datatype script = ExtractSpecScript | SpecUrlScript

datatype event =
    Printed string
  | HttpGet request
  | FileOpened string
  | FileClosed string
  | ManagerInstall
  | ChromeStart "string list"
  | DriverGet string
  | WaitPresence nat string
  | Slept nat
  | ExecuteScript script
  | DriverQuit

record world =
  trace :: "event list"
  files :: "string \<Rightarrow> string option"

type_synonym 'a io = "world \<Rightarrow> (exn + 'a) \<times> world"

definition io_return :: "'a \<Rightarrow> 'a io" where
  "io_return x = (\<lambda>s. (Inr x, s))"

definition io_lift :: "exn + 'a \<Rightarrow> 'a io" where
  "io_lift r = (\<lambda>s. (r, s))"

definition io_bind :: "'a io \<Rightarrow> ('a \<Rightarrow> 'b io) \<Rightarrow> 'b io" where
  "io_bind m f = (\<lambda>s. case m s of (Inl e, s') \<Rightarrow> (Inl e, s') | (Inr x, s') \<Rightarrow> f x s')"

text \<open>
  \<^verbatim>\<open>try: body finally: fin\<close>: \<open>fin\<close> runs after \<open>body\<close> whether it returned or
  raised; the outcome is \<open>body\<close>'s unless \<open>fin\<close> raises itself.
\<close>

definition try_finally :: "'a io \<Rightarrow> unit io \<Rightarrow> 'a io" where
  "try_finally body fin =
     (\<lambda>s. case body s of
        (r, s') \<Rightarrow> (case fin s' of (Inl e, s'') \<Rightarrow> (Inl e, s'') | (Inr u, s'') \<Rightarrow> (r, s'')))"

definition emit :: "event \<Rightarrow> unit io" where
  "emit ev = (\<lambda>s. (Inr (), s\<lparr>trace := trace s @ [ev]\<rparr>))"

primrec for_each :: "'a list \<Rightarrow> ('a \<Rightarrow> unit io) \<Rightarrow> unit io" where
  "for_each [] body = io_return ()"
| "for_each (x # xs) body = io_bind (body x) (\<lambda>u. for_each xs body)"

text \<open>\<^verbatim>\<open>print(text)\<close>: one entry of the trace per call.\<close>

definition py_print :: "string \<Rightarrow> unit io" where
  "py_print t = emit (Printed t)"

text \<open>
  \<^verbatim>\<open>with open(name, "w") as f: body\<close>: opening creates the file or empties it, the
  body writes through the handle, the file is closed however the body ends.
\<close>

definition open_w :: "string \<Rightarrow> string io" where
  "open_w name = (\<lambda>s. (Inr name, s\<lparr>trace := trace s @ [FileOpened name], files := (files s)(name \<mapsto> [])\<rparr>))"

definition file_write :: "string \<Rightarrow> string \<Rightarrow> unit io" where
  "file_write f t =
     (\<lambda>s. (Inr (), s\<lparr>files := (files s)(f \<mapsto> (case files s f of None \<Rightarrow> [] | Some c \<Rightarrow> c) @ t)\<rparr>))"

definition with_open_w :: "string \<Rightarrow> (string \<Rightarrow> 'a io) \<Rightarrow> 'a io" where
  "with_open_w name body =
     io_bind (open_w name) (\<lambda>f. try_finally (body f) (emit (FileClosed f)))"

definition json_dump :: "py \<Rightarrow> string \<Rightarrow> unit io" where
  "json_dump obj f = file_write f (json_dumps obj 0)"

section \<open>The direct-fetch script: dmi\_api\_examples.py\<close>

definition API_KEY :: string where
  "API_KEY = ''78025163-28df-4624-996a-2657ddb0cf27''"

definition BASE_URL :: string where
  "BASE_URL = ''https://dmigw.govcloud.dk/v2/metObs''"

definition headers :: "(string \<times> string) list" where
  "headers = [(''X-Gravitee-Api-Key'', API_KEY), (''Accept'', ''application/json'')]"

text \<open>\<^verbatim>\<open>requests.get(url, headers=..., params=...)\<close>: the request goes out, the server answers.\<close>

definition requests_get ::
  "server \<Rightarrow> string \<Rightarrow> (string \<times> string) list \<Rightarrow> (string \<times> py) list option \<Rightarrow> response io" where
  "requests_get srv u hs ps =
     (let rq = \<lparr>req_url = u, req_headers = hs, req_params = ps\<rparr>
      in io_bind (emit (HttpGet rq)) (\<lambda>u. io_lift (srv rq)))"

definition response_json :: "response \<Rightarrow> exn + py" where
  "response_json r = (case body_json r of None \<Rightarrow> Inl JSONDecodeError | Some v \<Rightarrow> Inr v)"

definition get_api_docs :: "server \<Rightarrow> py io" where
  "get_api_docs srv =
     io_bind (requests_get srv (BASE_URL @ ''/api'') headers None) (\<lambda>response.
     io_bind
       (if ok response then
          io_bind
            (with_open_w ''dmi_openapi.json'' (\<lambda>f.
               io_bind (io_lift (response_json response)) (\<lambda>body. json_dump body f)))
            (\<lambda>u. py_print ''OpenAPI spec saved to dmi_openapi.json'')
        else io_return ())
       (\<lambda>u. io_lift (response_json response)))"

definition get_collections :: "server \<Rightarrow> py io" where
  "get_collections srv =
     io_bind (requests_get srv (BASE_URL @ ''/collections'') headers None) (\<lambda>response.
     io_lift (response_json response))"

definition get_conformance :: "server \<Rightarrow> py io" where
  "get_conformance srv =
     io_bind (requests_get srv (BASE_URL @ ''/conformance'') headers None) (\<lambda>response.
     io_lift (response_json response))"

text \<open>
  A keyword argument the caller leaves out is \<open>None\<close> here and takes the default of the
  signature: \<^verbatim>\<open>limit=10\<close>, and Python's \<^verbatim>\<open>None\<close> for the filters.
\<close>

definition default_arg :: "py \<Rightarrow> py option \<Rightarrow> py" where
  "default_arg d a = (case a of None \<Rightarrow> d | Some v \<Rightarrow> v)"

text \<open>The \<^verbatim>\<open>params\<close> dict each listing builds before its request.\<close>

definition stations_params :: "py \<Rightarrow> py \<Rightarrow> (string \<times> py) list" where
  "stations_params limit bbox =
     (let params = [(''limit'', limit)];
          params = (if py_truthy bbox then py_setitem params ''bbox'' bbox else params)
      in params)"

definition get_stations :: "server \<Rightarrow> py option \<Rightarrow> py option \<Rightarrow> py io" where
  "get_stations srv limit_arg bbox_arg =
     (let limit = default_arg (PInt 10) limit_arg;
          bbox = default_arg PNone bbox_arg;
          params = stations_params limit bbox
      in io_bind
           (requests_get srv (BASE_URL @ ''/collections/station/items'') headers (Some params))
           (\<lambda>response. io_lift (response_json response)))"

definition observations_params :: "py \<Rightarrow> py \<Rightarrow> py \<Rightarrow> py \<Rightarrow> (string \<times> py) list" where
  "observations_params parameter_id station_id datetime_range limit =
     (let params = [(''limit'', limit)];
          params = (if py_truthy parameter_id
                    then py_setitem params ''parameterId'' parameter_id else params);
          params = (if py_truthy station_id
                    then py_setitem params ''stationId'' station_id else params);
          params = (if py_truthy datetime_range
                    then py_setitem params ''datetime'' datetime_range else params)
      in params)"

definition get_observations ::
  "server \<Rightarrow> py option \<Rightarrow> py option \<Rightarrow> py option \<Rightarrow> py option \<Rightarrow> py io" where
  "get_observations srv parameter_id_arg station_id_arg datetime_range_arg limit_arg =
     (let parameter_id = default_arg PNone parameter_id_arg;
          station_id = default_arg PNone station_id_arg;
          datetime_range = default_arg PNone datetime_range_arg;
          limit = default_arg (PInt 10) limit_arg;
          params = observations_params parameter_id station_id datetime_range limit
      in io_bind
           (requests_get srv (BASE_URL @ ''/collections/observation/items'') headers (Some params))
           (\<lambda>response. io_lift (response_json response)))"

text \<open>
  \<^verbatim>\<open>print_api_structure\<close> is three blocks, each printing what the fetch before it
  returned: the collections, the conformance classes, the first station.
\<close>

definition print_collections :: "py \<Rightarrow> unit io" where
  "print_collections collections =
     io_bind (py_print (CHR 0x0A # ''Available Collections:'')) (\<lambda>u.
     io_bind (io_lift (py_get collections ''collections'' (PList []))) (\<lambda>cs.
     io_bind (io_lift (py_iter cs)) (\<lambda>items.
     for_each items (\<lambda>collection.
       io_bind (io_lift (py_getitem collection (PStr ''id''))) (\<lambda>cid.
       io_bind (io_lift (py_get collection ''title'' (PStr ''N/A''))) (\<lambda>title.
       io_bind (py_print (''- '' @ py_str cid @ '': '' @ py_str title)) (\<lambda>u.
       io_bind (io_lift (py_get collection ''description'' (PStr ''N/A''))) (\<lambda>description.
       io_bind (py_print (''  Description: '' @ py_str description)) (\<lambda>u.
       py_print [])))))))))"

definition print_conformance :: "py \<Rightarrow> unit io" where
  "print_conformance conformance =
     io_bind (py_print (CHR 0x0A # ''API Conforms to:'')) (\<lambda>u.
     io_bind (io_lift (py_get conformance ''conformsTo'' (PList []))) (\<lambda>cs.
     io_bind (io_lift (py_iter cs)) (\<lambda>items.
     for_each items (\<lambda>standard. py_print (''- '' @ py_str standard)))))"

definition print_station :: "py \<Rightarrow> unit io" where
  "print_station stations =
     io_bind (io_lift (py_get stations ''features'' PNone)) (\<lambda>features.
     if py_truthy features then
       io_bind (io_lift (py_getitem stations (PStr ''features''))) (\<lambda>fs.
       io_bind (io_lift (py_getitem fs (PInt 0))) (\<lambda>station.
       io_bind (io_lift (py_getitem station (PStr ''properties''))) (\<lambda>props.
       io_bind (io_lift (py_get props ''name'' (PStr ''N/A''))) (\<lambda>name.
       io_bind (py_print (CHR 0x0A # ''Example Station: '' @ py_str name)) (\<lambda>u.
       io_bind (py_print ''Available Parameters:'') (\<lambda>u.
       io_bind (io_lift (py_getitem station (PStr ''properties''))) (\<lambda>props.
       io_bind (io_lift (py_get props ''parameterId'' (PList []))) (\<lambda>ps.
       io_bind (io_lift (py_iter ps)) (\<lambda>items.
       for_each items (\<lambda>param. py_print (''- '' @ py_str param)))))))))))
     else io_return ())"

definition print_api_structure :: "server \<Rightarrow> unit io" where
  "print_api_structure srv =
     io_bind (py_print ''DMI Open Data API Structure'') (\<lambda>u.
     io_bind (py_print (replicate 50 CHR ''='')) (\<lambda>u.
     io_bind (get_collections srv) (\<lambda>collections.
     io_bind (print_collections collections) (\<lambda>u.
     io_bind (get_conformance srv) (\<lambda>conformance.
     io_bind (print_conformance conformance) (\<lambda>u.
     io_bind (get_stations srv (Some (PInt 1)) None) (\<lambda>stations.
     print_station stations)))))))"

section \<open>The browser-extraction script: fetch\_with\_selenium.py\<close>

subsection \<open>The page and the two in-page scripts\<close>

text \<open>
  The in-page scripts are JavaScript that reads the page's \<^verbatim>\<open>window\<close>. A value of
  the page is a primitive or an object; an object has its properties and, when it is a
  function, what calling it with no argument does: return a value, throw, or never
  return. The page state is the list of the properties of \<^verbatim>\<open>window\<close>.
\<close>

datatype 'a outcome = Returns 'a | Throws string | Hangs

datatype js =
    JUndefined
  | JNull
  | JBool bool
  | JNum int
  | JNaN
  | JStr string
  | JObject "(string \<times> js) list" "js outcome option"

type_synonym page = "(string \<times> js) list"

text \<open>ToBoolean: what \<^verbatim>\<open>if\<close> and \<^verbatim>\<open>&&\<close> test.\<close>

fun js_truthy :: "js \<Rightarrow> bool" where
  "js_truthy JUndefined = False"
| "js_truthy JNull = False"
| "js_truthy (JBool b) = b"
| "js_truthy (JNum n) = (n \<noteq> 0)"
| "js_truthy JNaN = False"
| "js_truthy (JStr s) = (s \<noteq> [])"
| "js_truthy (JObject ps c) = True"

text \<open>
  \<^verbatim>\<open>v.p\<close>: a TypeError on \<^verbatim>\<open>undefined\<close> and \<^verbatim>\<open>null\<close>, the property of an
  object (\<^verbatim>\<open>undefined\<close> when it has none of that name), and \<^verbatim>\<open>undefined\<close> on
  the other primitives, which have none of the names the scripts read.
\<close>

fun js_prop :: "js \<Rightarrow> string \<Rightarrow> js outcome" where
  "js_prop JUndefined p = Throws ''TypeError''"
| "js_prop JNull p = Throws ''TypeError''"
| "js_prop (JObject ps c) p = Returns (case map_of ps p of None \<Rightarrow> JUndefined | Some v \<Rightarrow> v)"
| "js_prop _ p = Returns JUndefined"

text \<open>\<^verbatim>\<open>f()\<close>: a TypeError unless \<open>f\<close> is a function.\<close>

fun js_call :: "js \<Rightarrow> js outcome" where
  "js_call (JObject ps (Some r)) = r"
| "js_call _ = Throws ''TypeError''"

definition js_then :: "'a outcome \<Rightarrow> ('a \<Rightarrow> 'b outcome) \<Rightarrow> 'b outcome" where
  "js_then r f = (case r of Returns v \<Rightarrow> f v | Throws e \<Rightarrow> Throws e | Hangs \<Rightarrow> Hangs)"

text \<open>\<^verbatim>\<open>a && b\<close>: the value of \<open>a\<close> when it is falsy, else that of \<open>b\<close>, evaluated only then.\<close>

definition js_and :: "js outcome \<Rightarrow> js outcome \<Rightarrow> js outcome" where
  "js_and a b = js_then a (\<lambda>v. if js_truthy v then b else Returns v)"

definition js_if :: "js outcome \<Rightarrow> 'a outcome \<Rightarrow> 'a outcome \<Rightarrow> 'a outcome" where
  "js_if c t e = js_then c (\<lambda>v. if js_truthy v then t else e)"

text \<open>\<^verbatim>\<open>v.p1.p2...\<close>, read left to right.\<close>

fun js_path :: "js \<Rightarrow> string list \<Rightarrow> js outcome" where
  "js_path v [] = Returns v"
| "js_path v (p # ps) = js_then (js_prop v p) (\<lambda>x. js_path x ps)"

text \<open>
  The extraction script, the first argument of \<^verbatim>\<open>driver.execute_script\<close>: an
  \<^verbatim>\<open>if\<close> / \<^verbatim>\<open>else if\<close> chain whose last \<^verbatim>\<open>else\<close> block reads the store, and a
  final \<^verbatim>\<open>return null\<close>.
\<close>

definition extract_spec_script :: "page \<Rightarrow> js outcome" where
  "extract_spec_script pg =
     (let window = JObject pg None in
      js_if (js_and (js_and (js_path window [''ui''])
                            (js_path window [''ui'', ''specSelectors'']))
                    (js_path window [''ui'', ''specSelectors'', ''specJson'']))
        (js_then (js_path window [''ui'', ''specSelectors'', ''specJson'']) js_call)
     (js_if (js_and (js_path window [''ui'']) (js_path window [''ui'', ''spec'']))
        (js_then (js_path window [''ui'', ''spec'']) js_call)
     (js_if (js_path window [''swaggerSpec''])
        (js_path window [''swaggerSpec''])
     (js_then (js_and (js_and (js_path window [''ui''])
                              (js_path window [''ui'', ''getState'']))
                      (js_then (js_path window [''ui'', ''getState'']) js_call))
        (\<lambda>state.
           js_if (js_and (js_and (Returns state) (js_path state [''spec'']))
                         (js_path state [''spec'', ''json'']))
             (js_path state [''spec'', ''json''])
             (Returns JNull))))))"

text \<open>The second script, run when nothing was extracted: the URL the page loaded its specification from.\<close>

definition spec_url_script :: "page \<Rightarrow> js outcome" where
  "spec_url_script pg =
     (let window = JObject pg None in
      js_then (js_and (js_and (js_path window [''ui''])
                              (js_path window [''ui'', ''getConfigs'']))
                      (js_then (js_path window [''ui'', ''getConfigs'']) js_call))
        (\<lambda>config. js_and (Returns config) (js_path config [''url''])))"

fun script_text :: "script \<Rightarrow> page \<Rightarrow> js outcome" where
  "script_text ExtractSpecScript = extract_spec_script"
| "script_text SpecUrlScript = spec_url_script"

subsection \<open>The extraction as an ordered list of lookup strategies\<close>

text \<open>
  The specification describes the extraction script as four lookup strategies tried in
  order, the first one found being returned and null when none matches. A strategy
  looks at the page and finds a value (\<open>Some\<close>), finds none (\<open>None\<close>), or fails.
  \<open>js_lookup\<close> is the guarded read \<^verbatim>\<open>v && v.p1 && v.p1.p2\<close>: the value at the end
  of the path, or the first falsy value on the way.
\<close>

type_synonym strategy = "page \<Rightarrow> js option outcome"

fun js_member :: "js \<Rightarrow> string \<Rightarrow> js" where
  "js_member (JObject ps c) p = (case map_of ps p of None \<Rightarrow> JUndefined | Some v \<Rightarrow> v)"
| "js_member _ p = JUndefined"

fun js_lookup :: "js \<Rightarrow> string list \<Rightarrow> js" where
  "js_lookup v [] = v"
| "js_lookup v (p # ps) = (if js_truthy v then js_lookup (js_member v p) ps else v)"

definition found :: "js outcome \<Rightarrow> js option outcome" where
  "found r = js_then r (\<lambda>v. Returns (Some v))"

text \<open>A direct selector function: \<^verbatim>\<open>ui.specSelectors.specJson\<close>, called when present.\<close>

definition selector_function :: strategy where
  "selector_function pg =
     (let f = js_lookup (JObject pg None) [''ui'', ''specSelectors'', ''specJson'']
      in if js_truthy f then found (js_call f) else Returns None)"

text \<open>A direct property: \<^verbatim>\<open>ui.spec\<close>, called when present.\<close>

definition direct_property :: strategy where
  "direct_property pg =
     (let f = js_lookup (JObject pg None) [''ui'', ''spec'']
      in if js_truthy f then found (js_call f) else Returns None)"

text \<open>A global variable: \<^verbatim>\<open>swaggerSpec\<close>.\<close>

definition global_variable :: strategy where
  "global_variable pg =
     (let v = js_lookup (JObject pg None) [''swaggerSpec'']
      in if js_truthy v then Returns (Some v) else Returns None)"

text \<open>A nested state object: \<^verbatim>\<open>spec.json\<close> of the state \<^verbatim>\<open>ui.getState()\<close> returns.\<close>

definition nested_state :: strategy where
  "nested_state pg =
     (let g = js_lookup (JObject pg None) [''ui'', ''getState'']
      in js_then (if js_truthy g then js_call g else Returns g) (\<lambda>state.
           let j = js_lookup state [''spec'', ''json'']
           in if js_truthy j then Returns (Some j) else Returns None))"

definition strategies :: "strategy list" where
  "strategies = [selector_function, direct_property, global_variable, nested_state]"

text \<open>
  The strategies in sequence, stopping at the first success; a strategy that fails
  ends the search with its failure.
\<close>

fun first_match :: "strategy list \<Rightarrow> page \<Rightarrow> js outcome" where
  "first_match [] pg = Returns JNull"
| "first_match (st # sts) pg =
     (case st pg of
        Returns (Some v) \<Rightarrow> Returns v
      | Returns None \<Rightarrow> first_match sts pg
      | Throws e \<Rightarrow> Throws e
      | Hangs \<Rightarrow> Hangs)"

subsection \<open>The driver and the procedure\<close>

text \<open>
  The browser as the procedure meets it: for each call on the driver, whether it raises;
  for each script, what \<^verbatim>\<open>execute_script\<close> hands back to Python.
\<close>

record browser =
  manager_install :: "exn option"
  chrome_start :: "exn option"
  navigate :: "string \<Rightarrow> exn option"
  wait_presence :: "nat \<Rightarrow> string \<Rightarrow> exn option"
  run_script :: "script \<Rightarrow> exn + py"
  quit_outcome :: "exn option"

definition io_call :: "event \<Rightarrow> exn option \<Rightarrow> unit io" where
  "io_call ev r =
     io_bind (emit ev) (\<lambda>u. io_lift (case r of None \<Rightarrow> Inr () | Some e \<Rightarrow> Inl e))"

definition chrome_options :: "string list" where
  "chrome_options = [''--headless'', ''--no-sandbox'', ''--disable-dev-shm-usage'']"

definition driver_get :: "browser \<Rightarrow> string \<Rightarrow> unit io" where
  "driver_get b u = io_call (DriverGet u) (navigate b u)"

definition wait_until_present :: "browser \<Rightarrow> nat \<Rightarrow> string \<Rightarrow> unit io" where
  "wait_until_present b t cls = io_call (WaitPresence t cls) (wait_presence b t cls)"

definition time_sleep :: "nat \<Rightarrow> unit io" where
  "time_sleep n = emit (Slept n)"

definition execute_script :: "browser \<Rightarrow> script \<Rightarrow> py io" where
  "execute_script b sc = io_bind (emit (ExecuteScript sc)) (\<lambda>u. io_lift (run_script b sc))"

definition driver_quit :: "browser \<Rightarrow> unit io" where
  "driver_quit b = io_call DriverQuit (quit_outcome b)"

text \<open>The body of the \<^verbatim>\<open>try\<close> block.\<close>

definition extract_and_save :: "browser \<Rightarrow> unit io" where
  "extract_and_save b =
     io_bind (py_print ''Loading Swagger UI page...'') (\<lambda>u.
     io_bind (driver_get b ''https://dmigw.govcloud.dk/v2/metObs/swagger-ui/index.html'') (\<lambda>u.
     io_bind (wait_until_present b 10 ''swagger-ui'') (\<lambda>u.
     io_bind (time_sleep 3) (\<lambda>u.
     io_bind (py_print ''Extracting API specification...'') (\<lambda>u.
     io_bind (execute_script b ExtractSpecScript) (\<lambda>spec.
     if py_truthy spec then
       io_bind (py_print ''Successfully extracted API specification!'') (\<lambda>u.
       io_bind (with_open_w ''dmi_api_selenium.json'' (\<lambda>f. json_dump spec f)) (\<lambda>u.
       py_print ''Saved to: dmi_api_selenium.json''))
     else
       io_bind (py_print ''Could not extract specification from JavaScript'') (\<lambda>u.
       io_bind (execute_script b SpecUrlScript) (\<lambda>spec_url.
       if py_truthy spec_url then py_print (''Found spec URL: '' @ py_str spec_url)
       else io_return ()))))))))"

definition fetch_swagger_spec :: "browser \<Rightarrow> unit io" where
  "fetch_swagger_spec b =
     io_bind (io_call ManagerInstall (manager_install b)) (\<lambda>u.
     io_bind (io_call (ChromeStart chrome_options) (chrome_start b)) (\<lambda>u.
     try_finally (extract_and_save b) (driver_quit b)))"

section \<open>Stubbed collaborators and response shapes\<close>

text \<open>The request a fetch function issues for a path of the API.\<close>

definition endpoint :: "string \<Rightarrow> (string \<times> py) list option \<Rightarrow> request" where
  "endpoint path ps = \<lparr>req_url = BASE_URL @ path, req_headers = headers, req_params = ps\<rparr>"

text \<open>A server stubbed by a table from URL to response; no route, no connection.\<close>

definition stub_server :: "(string \<times> response) list \<Rightarrow> server" where
  "stub_server table rq =
     (case map_of table (req_url rq) of None \<Rightarrow> Inl ConnectionError | Some r \<Rightarrow> Inr r)"

definition json_response :: "bool \<Rightarrow> py \<Rightarrow> response" where
  "json_response status v = \<lparr>ok = status, body_json = Some v\<rparr>"

definition fresh_world :: world where
  "fresh_world = \<lparr>trace = [], files = (\<lambda>name. None)\<rparr>"

text \<open>
  The shape of the three documents the summary reads. A key is optional when the
  summary reads it with \<^verbatim>\<open>.get(key, default)\<close> and required when it reads it with
  \<^verbatim>\<open>[key]\<close>.
\<close>

fun is_dict_with :: "((string \<times> py) list \<Rightarrow> bool) \<Rightarrow> py \<Rightarrow> bool" where
  "is_dict_with P (PDict kvs) = P kvs"
| "is_dict_with P _ = False"

fun is_list_with :: "(py list \<Rightarrow> bool) \<Rightarrow> py \<Rightarrow> bool" where
  "is_list_with P (PList xs) = P xs"
| "is_list_with P _ = False"

definition optional_key :: "string \<Rightarrow> (py \<Rightarrow> bool) \<Rightarrow> (string \<times> py) list \<Rightarrow> bool" where
  "optional_key k P kvs = (case map_of kvs k of None \<Rightarrow> True | Some v \<Rightarrow> P v)"

definition required_key :: "string \<Rightarrow> (py \<Rightarrow> bool) \<Rightarrow> (string \<times> py) list \<Rightarrow> bool" where
  "required_key k P kvs = (case map_of kvs k of None \<Rightarrow> False | Some v \<Rightarrow> P v)"

definition any_value :: "'a \<Rightarrow> bool" where
  "any_value v = True"

text \<open>
  \<^verbatim>\<open>{"collections": [{"id": ..., "title": ..., "description": ...}, ...]}\<close>: only
  \<^verbatim>\<open>id\<close> is required.
\<close>

definition collections_shape :: "py \<Rightarrow> bool" where
  "collections_shape =
     is_dict_with (optional_key ''collections''
       (is_list_with (list_all (is_dict_with (required_key ''id'' any_value)))))"

text \<open>\<^verbatim>\<open>{"conformsTo": [...]}\<close>.\<close>

definition conformance_shape :: "py \<Rightarrow> bool" where
  "conformance_shape = is_dict_with (optional_key ''conformsTo'' (is_list_with any_value))"

text \<open>
  \<^verbatim>\<open>{"features": [{"properties": {"name": ..., "parameterId": [...]}}, ...]}\<close>:
  only the properties of the first feature are read, and they are required.
\<close>

definition station_shape :: "py \<Rightarrow> bool" where
  "station_shape =
     is_dict_with (required_key ''properties''
       (is_dict_with (optional_key ''parameterId'' (is_list_with any_value))))"

definition stations_shape :: "py \<Rightarrow> bool" where
  "stations_shape =
     is_dict_with (optional_key ''features''
       (\<lambda>fs. if py_truthy fs
             then (case fs of PList (f # rest) \<Rightarrow> station_shape f | _ \<Rightarrow> False)
             else True))"

text \<open>
  What the summary is expected to print, with the defaults written out: \<^verbatim>\<open>N/A\<close>
  for a missing \<^verbatim>\<open>title\<close>, \<^verbatim>\<open>description\<close> or \<^verbatim>\<open>name\<close>, the empty list for
  a missing \<^verbatim>\<open>collections\<close>, \<^verbatim>\<open>conformsTo\<close>, \<^verbatim>\<open>features\<close> or
  \<^verbatim>\<open>parameterId\<close>.
\<close>

definition dict_get :: "(string \<times> py) list \<Rightarrow> string \<Rightarrow> py \<Rightarrow> py" where
  "dict_get kvs k d = (case map_of kvs k of None \<Rightarrow> d | Some v \<Rightarrow> v)"

definition list_under :: "string \<Rightarrow> py \<Rightarrow> py list" where
  "list_under k v =
     (case v of
        PDict kvs \<Rightarrow> (case dict_get kvs k (PList []) of PList xs \<Rightarrow> xs | _ \<Rightarrow> [])
      | _ \<Rightarrow> [])"

definition collection_lines :: "py \<Rightarrow> event list" where
  "collection_lines entry =
     (case entry of
        PDict e \<Rightarrow>
          [Printed (''- '' @ py_str (dict_get e ''id'' PNone) @ '': ''
                      @ py_str (dict_get e ''title'' (PStr ''N/A''))),
           Printed (''  Description: '' @ py_str (dict_get e ''description'' (PStr ''N/A''))),
           Printed []]
      | _ \<Rightarrow> [])"

definition collections_output :: "py \<Rightarrow> event list" where
  "collections_output c =
     Printed (CHR 0x0A # ''Available Collections:'')
       # concat (map collection_lines (list_under ''collections'' c))"

definition conformance_output :: "py \<Rightarrow> event list" where
  "conformance_output f =
     Printed (CHR 0x0A # ''API Conforms to:'')
       # map (\<lambda>standard. Printed (''- '' @ py_str standard)) (list_under ''conformsTo'' f)"

definition station_output :: "py \<Rightarrow> event list" where
  "station_output st =
     (case list_under ''features'' st of
        [] \<Rightarrow> []
      | station # rest \<Rightarrow>
          (case station of
             PDict fk \<Rightarrow>
               (case dict_get fk ''properties'' PNone of
                  PDict pk \<Rightarrow>
                    [Printed (CHR 0x0A # ''Example Station: ''
                               @ py_str (dict_get pk ''name'' (PStr ''N/A''))),
                     Printed ''Available Parameters:'']
                    @ map (\<lambda>param. Printed (''- '' @ py_str param))
                        (list_under ''parameterId'' (PDict pk))
                | _ \<Rightarrow> [])
           | _ \<Rightarrow> []))"

definition summary_output :: "py \<Rightarrow> py \<Rightarrow> py \<Rightarrow> event list" where
  "summary_output c f st =
     [Printed ''DMI Open Data API Structure'', Printed (replicate 50 CHR ''=''),
      HttpGet (endpoint ''/collections'' None)]
     @ collections_output c
     @ [HttpGet (endpoint ''/conformance'' None)]
     @ conformance_output f
     @ [HttpGet (endpoint ''/collections/station/items'' (Some [(''limit'', PInt 1)]))]
     @ station_output st"

text \<open>
  A server answers a request with a document when the request succeeds and its body
  decodes to that document, whatever the status. The three endpoints the summary reads
  answer with documents of the expected shapes.
\<close>

definition answers :: "server \<Rightarrow> request \<Rightarrow> py \<Rightarrow> bool" where
  "answers srv rq v = (case srv rq of Inl e \<Rightarrow> False | Inr r \<Rightarrow> body_json r = Some v)"

definition shaped_answers :: "server \<Rightarrow> py \<Rightarrow> py \<Rightarrow> py \<Rightarrow> bool" where
  "shaped_answers srv c f st =
     (answers srv (endpoint ''/collections'' None) c \<and> collections_shape c
      \<and> answers srv (endpoint ''/conformance'' None) f \<and> conformance_shape f
      \<and> answers srv (endpoint ''/collections/station/items'' (Some [(''limit'', PInt 1)])) st
      \<and> stations_shape st)"

text \<open>A server stubbed with one document for each of the three endpoints.\<close>

definition stub_endpoints :: "py \<Rightarrow> py \<Rightarrow> py \<Rightarrow> server" where
  "stub_endpoints c f st =
     stub_server [(BASE_URL @ ''/collections'', json_response True c),
                  (BASE_URL @ ''/conformance'', json_response True f),
                  (BASE_URL @ ''/collections/station/items'', json_response True st)]"

text \<open>A run only adds to the trace: what was printed or sent stays in it.\<close>

definition appends :: "'a io \<Rightarrow> bool" where
  "appends m = (\<forall>s. prefix (trace s) (trace (snd (m s))))"

text \<open>
  A browser stubbed by the outcomes of navigation and of the ready-wait and by what the
  two scripts hand back; it starts and quits without error.
\<close>

definition stub_browser :: "exn option \<Rightarrow> exn option \<Rightarrow> exn + py \<Rightarrow> exn + py \<Rightarrow> browser" where
  "stub_browser nav ready spec spec_url =
     \<lparr>manager_install = None, chrome_start = None,
      navigate = (\<lambda>u. nav), wait_presence = (\<lambda>t cls. ready),
      run_script = (\<lambda>sc. case sc of ExtractSpecScript \<Rightarrow> spec | SpecUrlScript \<Rightarrow> spec_url),
      quit_outcome = None\<rparr>"

section \<open>Properties\<close>

subsection \<open>Running the building blocks\<close>

lemma io_bind_run:
  "io_bind m f s = (case fst (m s) of Inl e \<Rightarrow> (Inl e, snd (m s)) | Inr x \<Rightarrow> f x (snd (m s)))"
  by (simp add: io_bind_def split: prod.splits sum.splits)

lemma io_bind_Inr: "m s = (Inr x, s') \<Longrightarrow> io_bind m f s = f x s'"
  by (simp add: io_bind_def)

lemma io_bind_assoc: "io_bind (io_bind m f) g = io_bind m (\<lambda>x. io_bind (f x) g)"
  by (auto simp: io_bind_def fun_eq_iff split: prod.splits sum.splits)

lemma bind_lift_Inr: "io_bind (io_lift (Inr v)) f = f v"
  by (simp add: io_bind_def io_lift_def fun_eq_iff)

lemma requests_get_run:
  "requests_get srv u hs ps s =
     (srv \<lparr>req_url = u, req_headers = hs, req_params = ps\<rparr>,
      s\<lparr>trace := trace s @ [HttpGet \<lparr>req_url = u, req_headers = hs, req_params = ps\<rparr>]\<rparr>)"
  by (simp add: requests_get_def io_bind_def emit_def io_lift_def Let_def)

lemma fetch_json_run:
  "io_bind (requests_get srv u hs ps) (\<lambda>response. io_lift (response_json response)) s =
     ((case srv \<lparr>req_url = u, req_headers = hs, req_params = ps\<rparr> of
         Inl e \<Rightarrow> Inl e | Inr r \<Rightarrow> response_json r),
      s\<lparr>trace := trace s @ [HttpGet \<lparr>req_url = u, req_headers = hs, req_params = ps\<rparr>]\<rparr>)"
  by (simp add: io_bind_def requests_get_run io_lift_def split: sum.splits)

lemma get_json_run:
  assumes "srv (endpoint path ps) = Inr r" and "body_json r = Some v"
  shows "io_bind (requests_get srv (BASE_URL @ path) headers ps)
           (\<lambda>response. io_lift (response_json response)) s =
         (Inr v, s\<lparr>trace := trace s @ [HttpGet (endpoint path ps)]\<rparr>)"
  using assms
  by (simp add: io_bind_def requests_get_run io_lift_def response_json_def endpoint_def)

lemma json_dumps_sample:
  "json_dumps (PDict [(''openapi'', PStr ''3.0.1'')]) 0 =
     ''{'' @ [CHR 0x0A] @ ''  '' @ [CHR 0x22] @ ''openapi'' @ [CHR 0x22] @ '': ''
       @ [CHR 0x22] @ ''3.0.1'' @ [CHR 0x22, CHR 0x0A] @ ''}''"
  by (simp add: json_block_def newline_indent_def json_string_def json_char_def numeral_2_eq_2)

subsection \<open>Query parameters of the station and observation listings\<close>

lemma stations_params_eq:
  "stations_params limit bbox =
     (''limit'', limit) # (if py_truthy bbox then [(''bbox'', bbox)] else [])"
  by (simp add: stations_params_def)

lemma observations_params_eq:
  "observations_params p st d limit =
     (''limit'', limit)
       # (if py_truthy p then [(''parameterId'', p)] else [])
       @ (if py_truthy st then [(''stationId'', st)] else [])
       @ (if py_truthy d then [(''datetime'', d)] else [])"
  by (simp add: observations_params_def)

text \<open>
  Claim C5. \<^verbatim>\<open>get_stations(limit=5, bbox=None)\<close>, with \<^verbatim>\<open>bbox\<close> left out or
  passed as \<^verbatim>\<open>None\<close>, sends one request whose query parameters are exactly
  \<^verbatim>\<open>{limit: 5}\<close>: there is no \<^verbatim>\<open>bbox\<close> key. This holds for every server and from
  every state.
\<close>

theorem get_stations_limit_5_params:
  "trace (snd (get_stations srv (Some (PInt 5)) None s)) =
     trace s @ [HttpGet \<lparr>req_url = ''https://dmigw.govcloud.dk/v2/metObs/collections/station/items'',
                         req_headers = headers,
                         req_params = Some [(''limit'', PInt 5)]\<rparr>]
   \<and> trace (snd (get_stations srv (Some (PInt 5)) (Some PNone) s)) =
     trace s @ [HttpGet \<lparr>req_url = ''https://dmigw.govcloud.dk/v2/metObs/collections/station/items'',
                         req_headers = headers,
                         req_params = Some [(''limit'', PInt 5)]\<rparr>]"
  by (simp add: get_stations_def fetch_json_run default_arg_def stations_params_def BASE_URL_def)

text \<open>
  Claim C6. \<^verbatim>\<open>get_observations(station_id="06074")\<close>, every other argument left at
  its default, sends one request whose query parameters are exactly
  \<^verbatim>\<open>{limit: 10, stationId: "06074"}\<close>: no \<^verbatim>\<open>parameterId\<close> and no \<^verbatim>\<open>datetime\<close>.
\<close>

theorem get_observations_station_only_params:
  "trace (snd (get_observations srv None (Some (PStr ''06074'')) None None s)) =
     trace s @ [HttpGet \<lparr>req_url = ''https://dmigw.govcloud.dk/v2/metObs/collections/observation/items'',
                         req_headers = headers,
                         req_params = Some [(''limit'', PInt 10), (''stationId'', PStr ''06074'')]\<rparr>]"
  by (simp add: get_observations_def fetch_json_run default_arg_def observations_params_def
        BASE_URL_def)

text \<open>
  Claim C9. In both listings the request carries \<^verbatim>\<open>limit\<close> in every call, whatever
  its value, and a filter key (\<^verbatim>\<open>bbox\<close>, \<^verbatim>\<open>parameterId\<close>, \<^verbatim>\<open>stationId\<close>,
  \<^verbatim>\<open>datetime\<close>) exactly when its argument is truthy. A falsy argument such as
  \<^verbatim>\<open>""\<close> or \<^verbatim>\<open>0\<close> gives the very run that leaving the argument out gives.
\<close>

theorem filters_sent_iff_truthy:
  "trace (snd (get_stations srv la ba s)) =
     trace s @ [HttpGet \<lparr>req_url = BASE_URL @ ''/collections/station/items'',
                         req_headers = headers,
                         req_params = Some ((''limit'', default_arg (PInt 10) la)
                           # (if py_truthy (default_arg PNone ba)
                              then [(''bbox'', default_arg PNone ba)] else []))\<rparr>]
   \<and> trace (snd (get_observations srv pa sa da la s)) =
     trace s @ [HttpGet \<lparr>req_url = BASE_URL @ ''/collections/observation/items'',
                         req_headers = headers,
                         req_params = Some ((''limit'', default_arg (PInt 10) la)
                           # (if py_truthy (default_arg PNone pa)
                              then [(''parameterId'', default_arg PNone pa)] else [])
                           @ (if py_truthy (default_arg PNone sa)
                              then [(''stationId'', default_arg PNone sa)] else [])
                           @ (if py_truthy (default_arg PNone da)
                              then [(''datetime'', default_arg PNone da)] else []))\<rparr>]
   \<and> (\<not> py_truthy bbox \<longrightarrow> get_stations srv la (Some bbox) = get_stations srv la None)
   \<and> (\<not> py_truthy p \<longrightarrow>
        get_observations srv (Some p) sa da la = get_observations srv None sa da la)
   \<and> (\<not> py_truthy st \<longrightarrow>
        get_observations srv pa (Some st) da la = get_observations srv pa None da la)
   \<and> (\<not> py_truthy d \<longrightarrow>
        get_observations srv pa sa (Some d) la = get_observations srv pa sa None la)"
  by (simp add: get_stations_def get_observations_def fetch_json_run default_arg_def
        stations_params_eq observations_params_eq)

text \<open>
  The theorem at falsy arguments: an empty \<^verbatim>\<open>bbox\<close> string and a zero
  \<^verbatim>\<open>parameter_id\<close> are left out, a zero \<^verbatim>\<open>limit\<close> is sent.
\<close>

theorem filters_sent_iff_truthy_witness:
  "\<not> py_truthy (PStr []) \<and> \<not> py_truthy (PInt 0) \<and> \<not> py_truthy PNone
   \<and> get_stations (stub_server []) None (Some (PStr [])) = get_stations (stub_server []) None None
   \<and> get_observations (stub_server []) (Some (PInt 0)) None None None =
       get_observations (stub_server []) None None None None
   \<and> trace (snd (get_observations (stub_server [])
         (Some (PInt 0)) (Some (PStr ''06074'')) (Some PNone) (Some (PInt 0)) fresh_world)) =
       [HttpGet \<lparr>req_url = BASE_URL @ ''/collections/observation/items'',
                 req_headers = headers,
                 req_params = Some [(''limit'', PInt 0), (''stationId'', PStr ''06074'')]\<rparr>]"
  using filters_sent_iff_truthy [where srv = "stub_server []" and la = "Some (PInt 0)"
      and pa = "Some (PInt 0)" and sa = "Some (PStr ''06074'')" and da = "Some PNone"
      and ba = None and s = fresh_world
      and bbox = "PStr []" and p = "PStr []" and st = "PStr []" and d = "PStr []"]
    filters_sent_iff_truthy [where srv = "stub_server []" and la = None and pa = None
      and sa = None and da = None and ba = None and s = fresh_world
      and bbox = "PStr []" and p = "PInt 0" and st = "PStr []" and d = "PStr []"]
  by (simp add: default_arg_def fresh_world_def)

subsection \<open>Fetching the specification document\<close>

lemma get_api_docs_run:
  "get_api_docs srv s =
     (let s1 = s\<lparr>trace := trace s @ [HttpGet (endpoint ''/api'' None)]\<rparr>
      in case srv (endpoint ''/api'' None) of
           Inl e \<Rightarrow> (Inl e, s1)
         | Inr r \<Rightarrow>
             if ok r then
               (case body_json r of
                  None \<Rightarrow>
                    (Inl JSONDecodeError,
                     s1\<lparr>trace := trace s1 @ [FileOpened ''dmi_openapi.json'',
                                              FileClosed ''dmi_openapi.json''],
                        files := (files s)(''dmi_openapi.json'' \<mapsto> [])\<rparr>)
                | Some v \<Rightarrow>
                    (Inr v,
                     s1\<lparr>trace := trace s1 @ [FileOpened ''dmi_openapi.json'',
                                              FileClosed ''dmi_openapi.json'',
                                              Printed ''OpenAPI spec saved to dmi_openapi.json''],
                        files := (files s)(''dmi_openapi.json'' \<mapsto> json_dumps v 0)\<rparr>))
             else (response_json r, s1))"
  unfolding get_api_docs_def Let_def endpoint_def
  by (simp add: io_bind_def requests_get_run response_json_def py_print_def
        with_open_w_def open_w_def try_finally_def json_dump_def file_write_def
        emit_def io_lift_def io_return_def split: sum.splits option.splits)

text \<open>
  Claim C3, as amended. Whatever the status, the outcome of \<^verbatim>\<open>get_api_docs\<close> is that
  of decoding the body: the decoded document, or the decode error when the body is not
  JSON. The file \<^verbatim>\<open>dmi_openapi.json\<close> is opened for writing exactly when the response
  is \<^verbatim>\<open>ok\<close>. A response that is not \<^verbatim>\<open>ok\<close> leaves every file as it was. A
  response that is \<^verbatim>\<open>ok\<close> overwrites the file: with the serialised document when
  the body decodes, and with nothing (the file is opened, hence emptied, before the body
  is decoded) when it does not.
\<close>

theorem get_api_docs_write_gated:
  assumes "srv (endpoint ''/api'' None) = Inr r"
  shows "fst (get_api_docs srv s) = response_json r
       \<and> files (snd (get_api_docs srv s)) =
           (if ok r
            then (files s)(''dmi_openapi.json'' \<mapsto>
                    (case body_json r of None \<Rightarrow> [] | Some v \<Rightarrow> json_dumps v 0))
            else files s)
       \<and> (FileOpened ''dmi_openapi.json''
             \<in> set (drop (length (trace s)) (trace (snd (get_api_docs srv s))))
           \<longleftrightarrow> ok r)"
  using assms
  by (simp add: get_api_docs_run Let_def response_json_def split: option.splits)

text \<open>
  The theorem at a success response and at a failure response that both carry the
  document \<^verbatim>\<open>{"openapi": "3.0.1"}\<close>: both return it, only the first writes it.
\<close>

theorem get_api_docs_write_gated_witness:
  "stub_server [(BASE_URL @ ''/api'', json_response True (PDict [(''openapi'', PStr ''3.0.1'')]))]
     (endpoint ''/api'' None) = Inr (json_response True (PDict [(''openapi'', PStr ''3.0.1'')]))
   \<and> fst (get_api_docs
        (stub_server [(BASE_URL @ ''/api'', json_response True (PDict [(''openapi'', PStr ''3.0.1'')]))])
        fresh_world) = Inr (PDict [(''openapi'', PStr ''3.0.1'')])
   \<and> files (snd (get_api_docs
        (stub_server [(BASE_URL @ ''/api'', json_response True (PDict [(''openapi'', PStr ''3.0.1'')]))])
        fresh_world)) ''dmi_openapi.json'' = Some (json_dumps (PDict [(''openapi'', PStr ''3.0.1'')]) 0)
   \<and> fst (get_api_docs
        (stub_server [(BASE_URL @ ''/api'', json_response False (PDict [(''openapi'', PStr ''3.0.1'')]))])
        fresh_world) = Inr (PDict [(''openapi'', PStr ''3.0.1'')])
   \<and> files (snd (get_api_docs
        (stub_server [(BASE_URL @ ''/api'', json_response False (PDict [(''openapi'', PStr ''3.0.1'')]))])
        fresh_world)) ''dmi_openapi.json'' = None"
  using get_api_docs_write_gated
      [of "stub_server [(BASE_URL @ ''/api'', json_response True (PDict [(''openapi'', PStr ''3.0.1'')]))]"
          "json_response True (PDict [(''openapi'', PStr ''3.0.1'')])" fresh_world]
    get_api_docs_write_gated
      [of "stub_server [(BASE_URL @ ''/api'', json_response False (PDict [(''openapi'', PStr ''3.0.1'')]))]"
          "json_response False (PDict [(''openapi'', PStr ''3.0.1'')])" fresh_world]
  by (simp add: stub_server_def endpoint_def json_response_def response_json_def fresh_world_def)

text \<open>
  Claim C3 as stated fails at a success response whose body is not JSON: the status
  indicates success, yet no decoded body is written. The earlier document in the file is
  lost, the file is left empty and the decode error reaches the caller.
\<close>

theorem get_api_docs_ok_not_json_counterexample:
  "ok \<lparr>ok = True, body_json = None\<rparr>
   \<and> fst (get_api_docs (stub_server [(BASE_URL @ ''/api'', \<lparr>ok = True, body_json = None\<rparr>)])
        \<lparr>trace = [], files = [''dmi_openapi.json'' \<mapsto> ''{}'']\<rparr>) = Inl JSONDecodeError
   \<and> files (snd (get_api_docs (stub_server [(BASE_URL @ ''/api'', \<lparr>ok = True, body_json = None\<rparr>)])
        \<lparr>trace = [], files = [''dmi_openapi.json'' \<mapsto> ''{}'']\<rparr>)) ''dmi_openapi.json'' = Some []"
  by (simp add: get_api_docs_run Let_def stub_server_def endpoint_def)

text \<open>
  Claim C8. With an unchanged remote document, every invocation of \<^verbatim>\<open>get_api_docs\<close>
  leaves the same files: a second run changes nothing the first run wrote. When the
  response is \<^verbatim>\<open>ok\<close> and decodes to a document, the content of
  \<^verbatim>\<open>dmi_openapi.json\<close> after a run is the serialised document, whatever the file held
  before: the file is overwritten, never appended to.
\<close>

theorem get_api_docs_idempotent:
  "files (snd (get_api_docs srv (snd (get_api_docs srv s)))) = files (snd (get_api_docs srv s))
   \<and> (srv (endpoint ''/api'' None) = Inr r \<and> ok r \<and> body_json r = Some v
       \<longrightarrow> files (snd (get_api_docs srv s)) ''dmi_openapi.json'' = Some (json_dumps v 0)
         \<and> files (snd (get_api_docs srv s')) ''dmi_openapi.json'' =
             files (snd (get_api_docs srv s)) ''dmi_openapi.json'')"
  by (simp add: get_api_docs_run Let_def response_json_def split: option.splits sum.splits)

text \<open>
  The theorem at the document \<^verbatim>\<open>{"openapi": "3.0.1"}\<close>, run from an empty file
  system and from one whose file holds other text.
\<close>

theorem get_api_docs_idempotent_witness:
  "stub_server [(BASE_URL @ ''/api'', json_response True (PDict [(''openapi'', PStr ''3.0.1'')]))]
     (endpoint ''/api'' None) = Inr (json_response True (PDict [(''openapi'', PStr ''3.0.1'')]))
   \<and> ok (json_response True (PDict [(''openapi'', PStr ''3.0.1'')]))
   \<and> body_json (json_response True (PDict [(''openapi'', PStr ''3.0.1'')])) =
       Some (PDict [(''openapi'', PStr ''3.0.1'')])
   \<and> files (snd (get_api_docs
        (stub_server [(BASE_URL @ ''/api'', json_response True (PDict [(''openapi'', PStr ''3.0.1'')]))])
        fresh_world)) ''dmi_openapi.json'' = Some (json_dumps (PDict [(''openapi'', PStr ''3.0.1'')]) 0)
   \<and> files (snd (get_api_docs
        (stub_server [(BASE_URL @ ''/api'', json_response True (PDict [(''openapi'', PStr ''3.0.1'')]))])
        \<lparr>trace = [], files = [''dmi_openapi.json'' \<mapsto> ''old text'']\<rparr>)) ''dmi_openapi.json'' =
       Some (json_dumps (PDict [(''openapi'', PStr ''3.0.1'')]) 0)"
  using get_api_docs_idempotent
      [of "stub_server [(BASE_URL @ ''/api'', json_response True (PDict [(''openapi'', PStr ''3.0.1'')]))]"
          fresh_world "json_response True (PDict [(''openapi'', PStr ''3.0.1'')])"
          "PDict [(''openapi'', PStr ''3.0.1'')]"
          "\<lparr>trace = [], files = [''dmi_openapi.json'' \<mapsto> ''old text'']\<rparr>"]
  by (simp add: stub_server_def endpoint_def json_response_def)

subsection \<open>The printed summary\<close>

lemma appends_return: "appends (io_return x)"
  by (simp add: appends_def io_return_def)

lemma appends_lift: "appends (io_lift r)"
  by (simp add: appends_def io_lift_def)

lemma appends_emit: "appends (emit ev)"
  by (simp add: appends_def emit_def)

lemma appends_bind: "appends m \<Longrightarrow> (\<And>x. appends (f x)) \<Longrightarrow> appends (io_bind m f)"
  unfolding appends_def io_bind_def
proof
  fix s
  assume m: "\<forall>s. prefix (trace s) (trace (snd (m s)))"
    and f: "\<And>x. \<forall>s. prefix (trace s) (trace (snd (f x s)))"
  obtain r s' where ms: "m s = (r, s')" by (cases "m s")
  from m have p1: "prefix (trace s) (trace s')" using ms by (metis snd_conv)
  show "prefix (trace s) (trace (snd (case m s of (Inl e, s') \<Rightarrow> (Inl e, s') | (Inr x, s') \<Rightarrow> f x s')))"
  proof (cases r)
    case (Inl e)
    with ms p1 show ?thesis by simp
  next
    case (Inr x)
    from f have "prefix (trace s') (trace (snd (f x s')))" by blast
    with p1 ms Inr show ?thesis by (simp add: prefix_order.trans)
  qed
qed

lemma appends_for_each: "(\<And>x. appends (body x)) \<Longrightarrow> appends (for_each xs body)"
  by (induction xs) (simp_all add: appends_return appends_bind)

lemma appends_print: "appends (py_print t)"
  by (simp add: py_print_def appends_emit)

lemma appends_requests_get: "appends (requests_get srv u hs ps)"
  by (simp add: requests_get_def Let_def appends_bind appends_emit appends_lift)

lemmas appends_intros =
  appends_bind appends_return appends_lift appends_emit appends_for_each appends_print
  appends_requests_get

lemma appends_get_conformance: "appends (get_conformance srv)"
  by (simp add: get_conformance_def appends_intros)

lemma appends_get_stations: "appends (get_stations srv la ba)"
  by (simp add: get_stations_def Let_def appends_intros)

lemma appends_print_conformance: "appends (print_conformance c)"
  by (simp add: print_conformance_def appends_intros)

lemma appends_print_station: "appends (print_station st)"
  by (simp add: print_station_def appends_intros)

lemma summary_split:
  "print_api_structure srv =
     io_bind
       (io_bind (py_print ''DMI Open Data API Structure'') (\<lambda>u.
        io_bind (py_print (replicate 50 CHR ''='')) (\<lambda>u.
        io_bind (get_collections srv) print_collections)))
       (\<lambda>u. io_bind (get_conformance srv) (\<lambda>conformance.
            io_bind (print_conformance conformance) (\<lambda>u.
            io_bind (get_stations srv (Some (PInt 1)) None) print_station)))"
  by (simp add: print_api_structure_def io_bind_assoc)

lemma appends_summary_rest:
  "appends (io_bind (get_conformance srv) (\<lambda>conformance.
            io_bind (print_conformance conformance) (\<lambda>u.
            io_bind (get_stations srv (Some (PInt 1)) None) print_station)))"
  by (intro appends_bind appends_get_conformance appends_print_conformance
        appends_get_stations appends_print_station)


text \<open>
  Claim C7. When the collections endpoint answers with
  \<^verbatim>\<open>{"collections": [{"id": "station", "title": "Stations"}]}\<close>, one of the lines
  \<^verbatim>\<open>print_api_structure\<close> prints is \<^verbatim>\<open>- station: Stations\<close>, whatever the other
  endpoints answer and whatever happens after the collections are printed.
\<close>

theorem summary_prints_station_line:
  assumes "srv (endpoint ''/collections'' None) = Inr r"
    and "body_json r = Some (PDict [(''collections'',
            PList [PDict [(''id'', PStr ''station''), (''title'', PStr ''Stations'')]])])"
  shows "Printed ''- station: Stations'' \<in> set (trace (snd (print_api_structure srv s)))"
proof -
  let ?head = "io_bind (py_print ''DMI Open Data API Structure'') (\<lambda>u.
        io_bind (py_print (replicate 50 CHR ''='')) (\<lambda>u.
        io_bind (get_collections srv) print_collections))"
  let ?rest = "io_bind (get_conformance srv) (\<lambda>conformance.
            io_bind (print_conformance conformance) (\<lambda>u.
            io_bind (get_stations srv (Some (PInt 1)) None) print_station))"
  obtain s' where head: "?head s = (Inr (), s')"
    and line: "Printed ''- station: Stations'' \<in> set (trace s')"
    using assms
    by (simp add: io_bind_def py_print_def emit_def get_collections_def requests_get_run
          endpoint_def io_lift_def response_json_def print_collections_def io_return_def
          py_str_def)
  have "prefix (trace s') (trace (snd (?rest s')))"
    using appends_summary_rest [of srv] by (simp add: appends_def)
  then have "set (trace s') \<subseteq> set (trace (snd (?rest s')))"
    by (rule set_mono_prefix)
  moreover have "print_api_structure srv s = ?rest s'"
    unfolding summary_split using head by (rule io_bind_Inr)
  ultimately show ?thesis using line by auto
qed

text \<open>
  The theorem at a server stubbed for the three endpoints, with the whole trace of the
  run: the missing description is printed as \<^verbatim>\<open>N/A\<close>.
\<close>

theorem summary_prints_station_line_witness:
  "stub_server
     [(BASE_URL @ ''/collections'',
         json_response True (PDict [(''collections'',
            PList [PDict [(''id'', PStr ''station''), (''title'', PStr ''Stations'')]])])),
      (BASE_URL @ ''/conformance'', json_response True (PDict [(''conformsTo'', PList [])])),
      (BASE_URL @ ''/collections/station/items'', json_response True (PDict [(''features'', PList [])]))]
     (endpoint ''/collections'' None) =
       Inr (json_response True (PDict [(''collections'',
            PList [PDict [(''id'', PStr ''station''), (''title'', PStr ''Stations'')]])]))
   \<and> body_json (json_response True (PDict [(''collections'',
            PList [PDict [(''id'', PStr ''station''), (''title'', PStr ''Stations'')]])])) =
       Some (PDict [(''collections'',
            PList [PDict [(''id'', PStr ''station''), (''title'', PStr ''Stations'')]])])
   \<and> Printed ''- station: Stations'' \<in> set (trace (snd (print_api_structure
        (stub_server
          [(BASE_URL @ ''/collections'',
              json_response True (PDict [(''collections'',
                 PList [PDict [(''id'', PStr ''station''), (''title'', PStr ''Stations'')]])])),
           (BASE_URL @ ''/conformance'', json_response True (PDict [(''conformsTo'', PList [])])),
           (BASE_URL @ ''/collections/station/items'',
              json_response True (PDict [(''features'', PList [])]))])
        fresh_world)))
   \<and> trace (snd (print_api_structure
        (stub_server
          [(BASE_URL @ ''/collections'',
              json_response True (PDict [(''collections'',
                 PList [PDict [(''id'', PStr ''station''), (''title'', PStr ''Stations'')]])])),
           (BASE_URL @ ''/conformance'', json_response True (PDict [(''conformsTo'', PList [])])),
           (BASE_URL @ ''/collections/station/items'',
              json_response True (PDict [(''features'', PList [])]))])
        fresh_world)) =
      [Printed ''DMI Open Data API Structure'',
       Printed (replicate 50 CHR ''=''),
       HttpGet (endpoint ''/collections'' None),
       Printed (CHR 0x0A # ''Available Collections:''),
       Printed ''- station: Stations'',
       Printed ''  Description: N/A'',
       Printed [],
       HttpGet (endpoint ''/conformance'' None),
       Printed (CHR 0x0A # ''API Conforms to:''),
       HttpGet (endpoint ''/collections/station/items'' (Some [(''limit'', PInt 1)]))]"
  using summary_prints_station_line
    [of "stub_server
          [(BASE_URL @ ''/collections'',
              json_response True (PDict [(''collections'',
                 PList [PDict [(''id'', PStr ''station''), (''title'', PStr ''Stations'')]])])),
           (BASE_URL @ ''/conformance'', json_response True (PDict [(''conformsTo'', PList [])])),
           (BASE_URL @ ''/collections/station/items'',
              json_response True (PDict [(''features'', PList [])]))]"
        "json_response True (PDict [(''collections'',
            PList [PDict [(''id'', PStr ''station''), (''title'', PStr ''Stations'')]])])"
        fresh_world]
  by (simp add: stub_server_def endpoint_def json_response_def fresh_world_def BASE_URL_def
        print_api_structure_def io_bind_def py_print_def emit_def get_collections_def
        get_conformance_def get_stations_def requests_get_run io_lift_def response_json_def
        print_collections_def print_conformance_def print_station_def io_return_def py_str_def
        default_arg_def stations_params_def)

subsection \<open>Missing keys in the summary\<close>

lemma emit_run: "emit ev s = (Inr (), s\<lparr>trace := trace s @ [ev]\<rparr>)"
  by (simp add: emit_def)

lemma for_each_trace:
  assumes "\<And>x s. x \<in> set xs \<Longrightarrow> body x s = (Inr (), s\<lparr>trace := trace s @ out x\<rparr>)"
  shows "for_each xs body s = (Inr (), s\<lparr>trace := trace s @ concat (map out xs)\<rparr>)"
  using assms
proof (induction xs arbitrary: s)
  case Nil
  then show ?case by (simp add: io_return_def)
next
  case (Cons x xs)
  have "body x s = (Inr (), s\<lparr>trace := trace s @ out x\<rparr>)" using Cons.prems by simp
  moreover have "for_each xs body (s\<lparr>trace := trace s @ out x\<rparr>) =
      (Inr (), (s\<lparr>trace := trace s @ out x\<rparr>)\<lparr>trace := trace (s\<lparr>trace := trace s @ out x\<rparr>) @ concat (map out xs)\<rparr>)"
    using Cons.IH Cons.prems by simp
  ultimately show ?case by (simp add: io_bind_def)
qed

lemma for_each_raises:
  assumes "\<And>x s. x \<in> set pre \<Longrightarrow> fst (body x s) = Inr ()"
    and "\<And>s. fst (body x s) = Inl e"
  shows "fst (for_each (pre @ x # post) body s) = Inl e"
  using assms(1)
proof (induction pre arbitrary: s)
  case Nil
  then show ?case using assms(2) by (simp add: io_bind_run)
next
  case (Cons p pre)
  then show ?case by (simp add: io_bind_run)
qed


lemma collection_entry_run:
  assumes "is_dict_with (required_key ''id'' any_value) x"
  shows "io_bind (io_lift (py_getitem x (PStr ''id''))) (\<lambda>cid.
       io_bind (io_lift (py_get x ''title'' (PStr ''N/A''))) (\<lambda>title.
       io_bind (py_print (''- '' @ py_str cid @ '': '' @ py_str title)) (\<lambda>u.
       io_bind (io_lift (py_get x ''description'' (PStr ''N/A''))) (\<lambda>description.
       io_bind (py_print (''  Description: '' @ py_str description)) (\<lambda>u.
       py_print []))))) s
     = (Inr (), s\<lparr>trace := trace s @ collection_lines x\<rparr>)"
proof -
  from assms obtain kvs v where x: "x = PDict kvs" and v: "map_of kvs ''id'' = Some v"
    by (cases x) (auto simp: required_key_def split: option.splits)
  show ?thesis
    unfolding x
    by (simp add: v io_bind_def io_lift_def py_print_def emit_def collection_lines_def
          dict_get_def split: option.splits)
qed

lemma collection_entry_raises:
  assumes "map_of e ''id'' = None"
  shows "fst (io_bind (io_lift (py_getitem (PDict e) (PStr ''id''))) (\<lambda>cid.
       io_bind (io_lift (py_get (PDict e) ''title'' (PStr ''N/A''))) (\<lambda>title.
       io_bind (py_print (''- '' @ py_str cid @ '': '' @ py_str title)) (\<lambda>u.
       io_bind (io_lift (py_get (PDict e) ''description'' (PStr ''N/A''))) (\<lambda>description.
       io_bind (py_print (''  Description: '' @ py_str description)) (\<lambda>u.
       py_print []))))) s)
     = Inl (KeyError (PStr ''id''))"
  using assms by (simp add: io_bind_def io_lift_def)

lemma list_under_collections:
  assumes "collections_shape c"
  shows "\<exists>kvs. c = PDict kvs
      \<and> py_get c ''collections'' (PList []) = Inr (PList (list_under ''collections'' c))
      \<and> list_all (is_dict_with (required_key ''id'' any_value)) (list_under ''collections'' c)"
proof -
  from assms obtain kvs where c: "c = PDict kvs"
    and opt: "optional_key ''collections''
        (is_list_with (list_all (is_dict_with (required_key ''id'' any_value)))) kvs"
    by (cases c) (auto simp: collections_shape_def)
  show ?thesis
  proof (cases "map_of kvs ''collections''")
    case None
    then show ?thesis by (simp add: c list_under_def dict_get_def)
  next
    case (Some cs)
    with opt obtain items where "cs = PList items"
      and "list_all (is_dict_with (required_key ''id'' any_value)) items"
      by (cases cs) (auto simp: optional_key_def)
    with Some show ?thesis by (simp add: c list_under_def dict_get_def)
  qed
qed

lemma print_collections_run:
  assumes "collections_shape c"
  shows "print_collections c s = (Inr (), s\<lparr>trace := trace s @ collections_output c\<rparr>)"
proof -
  from list_under_collections [OF assms] obtain kvs where c: "c = PDict kvs"
    and get: "py_get c ''collections'' (PList []) = Inr (PList (list_under ''collections'' c))"
    and all: "list_all (is_dict_with (required_key ''id'' any_value)) (list_under ''collections'' c)"
    by blast
  let ?body = "\<lambda>collection.
       io_bind (io_lift (py_getitem collection (PStr ''id''))) (\<lambda>cid.
       io_bind (io_lift (py_get collection ''title'' (PStr ''N/A''))) (\<lambda>title.
       io_bind (py_print (''- '' @ py_str cid @ '': '' @ py_str title)) (\<lambda>u.
       io_bind (io_lift (py_get collection ''description'' (PStr ''N/A''))) (\<lambda>description.
       io_bind (py_print (''  Description: '' @ py_str description)) (\<lambda>u.
       py_print [])))))"
  have loop: "\<And>s. for_each (list_under ''collections'' c) ?body s =
      (Inr (), s\<lparr>trace := trace s @ concat (map collection_lines (list_under ''collections'' c))\<rparr>)"
    by (rule for_each_trace, rule collection_entry_run) (use all in \<open>simp add: list_all_iff\<close>)
  have start: "print_collections c s =
      for_each (list_under ''collections'' c) ?body
        (s\<lparr>trace := trace s @ [Printed (CHR 0x0A # ''Available Collections:'')]\<rparr>)"
    unfolding print_collections_def
    by (simp only: get py_iter.simps bind_lift_Inr)
       (simp add: io_bind_def py_print_def emit_def)
  show ?thesis
    unfolding start loop by (simp add: collections_output_def)
qed

lemma print_line_run:
  "py_print (''- '' @ py_str x) s = (Inr (), s\<lparr>trace := trace s @ [Printed (''- '' @ py_str x)]\<rparr>)"
  by (simp add: py_print_def emit_def)

lemma print_lines_run:
  "for_each xs (\<lambda>x. py_print (''- '' @ py_str x)) s =
     (Inr (), s\<lparr>trace := trace s @ map (\<lambda>x. Printed (''- '' @ py_str x)) xs\<rparr>)"
proof -
  have "for_each xs (\<lambda>x. py_print (''- '' @ py_str x)) s =
     (Inr (), s\<lparr>trace := trace s @ concat (map (\<lambda>x. [Printed (''- '' @ py_str x)]) xs)\<rparr>)"
    by (rule for_each_trace) (rule print_line_run)
  moreover have "concat (map (\<lambda>x. [Printed (''- '' @ py_str x)]) xs) =
      map (\<lambda>x. Printed (''- '' @ py_str x)) xs"
    by (induction xs) simp_all
  ultimately show ?thesis by simp
qed

lemma print_conformance_run:
  assumes "conformance_shape f"
  shows "print_conformance f s = (Inr (), s\<lparr>trace := trace s @ conformance_output f\<rparr>)"
proof -
  from assms obtain kvs where f: "f = PDict kvs"
    and opt: "optional_key ''conformsTo'' (is_list_with any_value) kvs"
    by (cases f) (auto simp: conformance_shape_def)
  have get: "py_get f ''conformsTo'' (PList []) = Inr (PList (list_under ''conformsTo'' f))"
  proof (cases "map_of kvs ''conformsTo''")
    case None
    then show ?thesis by (simp add: f list_under_def dict_get_def)
  next
    case (Some cs)
    with opt obtain items where "cs = PList items"
      by (cases cs) (auto simp: optional_key_def)
    with Some show ?thesis by (simp add: f list_under_def dict_get_def)
  qed
  have start: "print_conformance f s =
      for_each (list_under ''conformsTo'' f) (\<lambda>standard. py_print (''- '' @ py_str standard))
        (s\<lparr>trace := trace s @ [Printed (CHR 0x0A # ''API Conforms to:'')]\<rparr>)"
    unfolding print_conformance_def
    by (simp only: get py_iter.simps bind_lift_Inr)
       (simp add: io_bind_def py_print_def emit_def)
  show ?thesis
    unfolding start print_lines_run by (simp add: conformance_output_def)
qed


lemma station_block_run:
  assumes "station_shape station"
  shows "io_bind (io_lift (py_getitem station (PStr ''properties''))) (\<lambda>props.
       io_bind (io_lift (py_get props ''name'' (PStr ''N/A''))) (\<lambda>name.
       io_bind (py_print (CHR 0x0A # ''Example Station: '' @ py_str name)) (\<lambda>u.
       io_bind (py_print ''Available Parameters:'') (\<lambda>u.
       io_bind (io_lift (py_getitem station (PStr ''properties''))) (\<lambda>props.
       io_bind (io_lift (py_get props ''parameterId'' (PList []))) (\<lambda>ps.
       io_bind (io_lift (py_iter ps)) (\<lambda>items.
       for_each items (\<lambda>param. py_print (''- '' @ py_str param))))))))) s
    = (Inr (), s\<lparr>trace := trace s @ station_output (PDict [(''features'', PList (station # rest))])\<rparr>)"
proof -
  from assms obtain fk props where f: "station = PDict fk"
    and props: "map_of fk ''properties'' = Some props"
    and pshape: "is_dict_with (optional_key ''parameterId'' (is_list_with any_value)) props"
    by (cases station) (auto simp: station_shape_def required_key_def split: option.splits)
  from pshape obtain pk where pk: "props = PDict pk"
    and opt: "optional_key ''parameterId'' (is_list_with any_value) pk"
    by (cases props) auto
  have get: "py_get (PDict pk) ''parameterId'' (PList []) =
      Inr (PList (list_under ''parameterId'' (PDict pk)))"
  proof (cases "map_of pk ''parameterId''")
    case None
    then show ?thesis by (simp add: list_under_def dict_get_def)
  next
    case (Some v)
    with opt obtain items where "v = PList items"
      by (cases v) (auto simp: optional_key_def)
    with Some show ?thesis by (simp add: list_under_def dict_get_def)
  qed
  have item: "py_getitem (PDict fk) (PStr ''properties'') = Inr (PDict pk)"
    using props pk by simp
  have name: "py_get (PDict pk) ''name'' (PStr ''N/A'') = Inr (dict_get pk ''name'' (PStr ''N/A''))"
    by (simp add: dict_get_def split: option.splits)
  have out: "station_output (PDict [(''features'', PList (PDict fk # rest))]) =
      [Printed (CHR 0x0A # ''Example Station: '' @ py_str (dict_get pk ''name'' (PStr ''N/A''))),
       Printed ''Available Parameters:'']
      @ map (\<lambda>param. Printed (''- '' @ py_str param)) (list_under ''parameterId'' (PDict pk))"
    using props pk by (simp add: station_output_def list_under_def dict_get_def)
  show ?thesis
    unfolding f out
    apply (simp only: item name get py_iter.simps bind_lift_Inr)
    apply (simp only: io_bind_def py_print_def emit_run print_lines_run [unfolded py_print_def])
    apply simp
    done
qed

lemma station_output_first:
  "station_output (PDict kvs) =
     (case list_under ''features'' (PDict kvs) of
        [] \<Rightarrow> []
      | station # rest \<Rightarrow> station_output (PDict [(''features'', PList (station # rest))]))"
  by (simp add: station_output_def list_under_def dict_get_def split: list.splits)

lemma print_station_run:
  assumes "stations_shape st"
  shows "print_station st s = (Inr (), s\<lparr>trace := trace s @ station_output st\<rparr>)"
proof -
  from assms obtain kvs where st: "st = PDict kvs"
    and opt: "optional_key ''features''
       (\<lambda>fs. if py_truthy fs
             then (case fs of PList (f # rest) \<Rightarrow> station_shape f | _ \<Rightarrow> False)
             else True) kvs"
    by (cases st) (auto simp: stations_shape_def)
  show ?thesis
  proof (cases "map_of kvs ''features''")
    case None
    then show ?thesis
      unfolding st print_station_def
      by (simp add: bind_lift_Inr io_return_def station_output_def list_under_def dict_get_def)
  next
    case (Some fs)
    show ?thesis
    proof (cases "py_truthy fs")
      case False
      then have "list_under ''features'' (PDict kvs) = []"
        using Some by (cases fs) (simp_all add: list_under_def dict_get_def)
      then show ?thesis
        unfolding st print_station_def using Some False
        by (simp add: bind_lift_Inr io_return_def station_output_first)
    next
      case True
      with opt Some obtain station rest where fs: "fs = PList (station # rest)"
        and shape: "station_shape station"
        by (auto simp: optional_key_def split: py.splits list.splits)
      have item0: "py_getitem (PList (station # rest)) (PInt 0) = Inr station"
        by (simp add: seq_item_def)
      have feat: "py_getitem (PDict kvs) (PStr ''features'') = Inr (PList (station # rest))"
        using Some fs by simp
      have get: "py_get (PDict kvs) ''features'' PNone = Inr (PList (station # rest))"
        using Some fs by simp
      have truthy: "py_truthy (PList (station # rest))" by simp
      have out: "station_output (PDict kvs) =
          station_output (PDict [(''features'', PList (station # rest))])"
        using Some fs by (simp add: station_output_def list_under_def dict_get_def)
      show ?thesis
        unfolding st print_station_def out
        by (simp only: get feat item0 truthy bind_lift_Inr if_True)
           (rule station_block_run [OF shape])
    qed
  qed
qed

lemma station_block_raises:
  assumes "map_of fk ''properties'' = None"
    and "map_of kvs ''features'' = Some (PList (PDict fk # rest))"
  shows "fst (print_station (PDict kvs) s) = Inl (KeyError (PStr ''properties''))"
  using assms
  by (simp add: print_station_def io_bind_def io_lift_def seq_item_def)


lemma answers_run:
  assumes "answers srv (endpoint path ps) v"
  shows "io_bind (requests_get srv (BASE_URL @ path) headers ps)
           (\<lambda>response. io_lift (response_json response)) s =
         (Inr v, s\<lparr>trace := trace s @ [HttpGet (endpoint path ps)]\<rparr>)"
  using assms
  by (simp add: answers_def io_bind_def requests_get_run io_lift_def response_json_def
        endpoint_def split: sum.splits)

lemma get_collections_run:
  "answers srv (endpoint ''/collections'' None) c \<Longrightarrow>
     get_collections srv s = (Inr c, s\<lparr>trace := trace s @ [HttpGet (endpoint ''/collections'' None)]\<rparr>)"
  unfolding get_collections_def by (rule answers_run)

lemma get_conformance_run:
  "answers srv (endpoint ''/conformance'' None) f \<Longrightarrow>
     get_conformance srv s = (Inr f, s\<lparr>trace := trace s @ [HttpGet (endpoint ''/conformance'' None)]\<rparr>)"
  unfolding get_conformance_def by (rule answers_run)

lemma get_first_station_run:
  assumes "answers srv (endpoint ''/collections/station/items'' (Some [(''limit'', PInt 1)])) st"
  shows "get_stations srv (Some (PInt 1)) None s =
     (Inr st, s\<lparr>trace := trace s @
        [HttpGet (endpoint ''/collections/station/items'' (Some [(''limit'', PInt 1)]))]\<rparr>)"
  using answers_run [of srv "''/collections/station/items''" "Some [(''limit'', PInt 1)]" st s] assms
  by (simp add: get_stations_def default_arg_def stations_params_def)

lemma print_run: "py_print t s = (Inr (), s\<lparr>trace := trace s @ [Printed t]\<rparr>)"
  by (simp add: py_print_def emit_def)

lemma summary_run:
  assumes "shaped_answers srv c f st"
  shows "print_api_structure srv s = (Inr (), s\<lparr>trace := trace s @ summary_output c f st\<rparr>)"
proof -
  from assms have a: "answers srv (endpoint ''/collections'' None) c" "collections_shape c"
    "answers srv (endpoint ''/conformance'' None) f" "conformance_shape f"
    "answers srv (endpoint ''/collections/station/items'' (Some [(''limit'', PInt 1)])) st"
    "stations_shape st"
    by (simp_all add: shaped_answers_def)
  show ?thesis
    unfolding print_api_structure_def
    by (simp add: io_bind_run print_run get_collections_run [OF a(1)]
          get_conformance_run [OF a(3)] get_first_station_run [OF a(5)]
          print_collections_run [OF a(2)] print_conformance_run [OF a(4)]
          print_station_run [OF a(6)] summary_output_def)
qed

lemma print_collections_raises:
  assumes "map_of ck ''collections'' = Some (PList (pre @ PDict e # post))"
    and "list_all (is_dict_with (required_key ''id'' any_value)) pre"
    and "map_of e ''id'' = None"
  shows "fst (print_collections (PDict ck) s) = Inl (KeyError (PStr ''id''))"
proof -
  let ?body = "\<lambda>collection.
       io_bind (io_lift (py_getitem collection (PStr ''id''))) (\<lambda>cid.
       io_bind (io_lift (py_get collection ''title'' (PStr ''N/A''))) (\<lambda>title.
       io_bind (py_print (''- '' @ py_str cid @ '': '' @ py_str title)) (\<lambda>u.
       io_bind (io_lift (py_get collection ''description'' (PStr ''N/A''))) (\<lambda>description.
       io_bind (py_print (''  Description: '' @ py_str description)) (\<lambda>u.
       py_print [])))))"
  have loop: "\<And>s. fst (for_each (pre @ PDict e # post) ?body s) = Inl (KeyError (PStr ''id''))"
  proof (rule for_each_raises)
    fix x s assume "x \<in> set pre"
    with assms(2) have "is_dict_with (required_key ''id'' any_value) x"
      by (simp add: list_all_iff)
    then have "?body x s = (Inr (), s\<lparr>trace := trace s @ collection_lines x\<rparr>)"
      by (rule collection_entry_run)
    then show "fst (?body x s) = Inr ()" by (simp only: fst_conv)
  next
    fix s show "fst (?body (PDict e) s) = Inl (KeyError (PStr ''id''))"
      by (rule collection_entry_raises [OF assms(3)])
  qed
  have get: "py_get (PDict ck) ''collections'' (PList []) = Inr (PList (pre @ PDict e # post))"
    using assms(1) by simp
  have start: "print_collections (PDict ck) s =
      for_each (pre @ PDict e # post) ?body
        (s\<lparr>trace := trace s @ [Printed (CHR 0x0A # ''Available Collections:'')]\<rparr>)"
    unfolding print_collections_def
    by (simp only: get py_iter.simps bind_lift_Inr)
       (simp add: io_bind_def py_print_def emit_def)
  show ?thesis unfolding start by (rule loop)
qed

lemma summary_missing_id:
  assumes "answers srv (endpoint ''/collections'' None) (PDict ck)"
    and "map_of ck ''collections'' = Some (PList (pre @ PDict e # post))"
    and "list_all (is_dict_with (required_key ''id'' any_value)) pre"
    and "map_of e ''id'' = None"
  shows "fst (print_api_structure srv s) = Inl (KeyError (PStr ''id''))"
  unfolding print_api_structure_def
  by (simp add: io_bind_run print_run get_collections_run [OF assms(1)]
        print_collections_raises [OF assms(2,3,4)])

lemma summary_missing_properties:
  assumes "answers srv (endpoint ''/collections'' None) c" and "collections_shape c"
    and "answers srv (endpoint ''/conformance'' None) f" and "conformance_shape f"
    and "answers srv (endpoint ''/collections/station/items'' (Some [(''limit'', PInt 1)])) (PDict sk)"
    and "map_of sk ''features'' = Some (PList (PDict fk # rest))"
    and "map_of fk ''properties'' = None"
  shows "fst (print_api_structure srv s) = Inl (KeyError (PStr ''properties''))"
  unfolding print_api_structure_def
  by (simp add: io_bind_run print_run get_collections_run [OF assms(1)]
        get_conformance_run [OF assms(3)] get_first_station_run [OF assms(5)]
        print_collections_run [OF assms(2)] print_conformance_run [OF assms(4)]
        station_block_raises [OF assms(7,6)])


lemma title_default_printed:
  assumes "PDict e \<in> set (list_under ''collections'' c)"
    and "map_of e ''id'' = Some i" and "map_of e ''title'' = None"
  shows "Printed (''- '' @ py_str i @ '': N/A'') \<in> set (summary_output c f st)"
proof -
  have "Printed (''- '' @ py_str i @ '': N/A'') \<in> set (collection_lines (PDict e))"
    using assms(2,3) by (simp add: collection_lines_def dict_get_def py_str_def)
  with assms(1) have "Printed (''- '' @ py_str i @ '': N/A'') \<in> set (collections_output c)"
    unfolding collections_output_def by (auto simp del: append.simps)
  then show ?thesis by (simp add: summary_output_def del: append.simps)
qed

lemma description_default_printed:
  assumes "PDict e \<in> set (list_under ''collections'' c)"
    and "map_of e ''description'' = None"
  shows "Printed ''  Description: N/A'' \<in> set (summary_output c f st)"
proof -
  have "Printed ''  Description: N/A'' \<in> set (collection_lines (PDict e))"
    using assms(2) by (simp add: collection_lines_def dict_get_def py_str_def)
  with assms(1) have "Printed ''  Description: N/A'' \<in> set (collections_output c)"
    unfolding collections_output_def by auto
  then show ?thesis by (simp add: summary_output_def)
qed

lemma station_output_known:
  assumes "list_under ''features'' st = PDict fk # rest"
    and "map_of fk ''properties'' = Some (PDict pk)"
  shows "station_output st =
     [Printed (CHR 0x0A # ''Example Station: '' @ py_str (dict_get pk ''name'' (PStr ''N/A''))),
      Printed ''Available Parameters:'']
     @ map (\<lambda>param. Printed (''- '' @ py_str param)) (list_under ''parameterId'' (PDict pk))"
  using assms by (simp add: station_output_def dict_get_def)

lemma name_default_printed:
  assumes "list_under ''features'' st = PDict fk # rest"
    and "map_of fk ''properties'' = Some (PDict pk)" and "map_of pk ''name'' = None"
  shows "Printed (CHR 0x0A # ''Example Station: N/A'') \<in> set (summary_output c f st)"
  using assms(3)
  by (simp add: summary_output_def station_output_known [OF assms(1,2)] dict_get_def py_str_def)

lemma station_output_falsy:
  assumes "\<not> py_truthy (dict_get sk ''features'' PNone)"
  shows "station_output (PDict sk) = []"
proof -
  have "list_under ''features'' (PDict sk) = []"
    using assms
    by (cases "map_of sk ''features''")
       (auto simp: list_under_def dict_get_def split: py.splits)
  then show ?thesis by (simp add: station_output_def)
qed

text \<open>
  Claim C4, as amended. When the three endpoints answer with objects of the expected
  shape, \<^verbatim>\<open>print_api_structure\<close> returns normally whichever of the keys it reads with
  a default are missing, and what it prints is the summary with the defaults in their
  place: \<^verbatim>\<open>N/A\<close> for a missing \<^verbatim>\<open>title\<close>, \<^verbatim>\<open>description\<close> or \<^verbatim>\<open>name\<close>,
  no entry for a missing \<^verbatim>\<open>collections\<close>, \<^verbatim>\<open>conformsTo\<close> or \<^verbatim>\<open>parameterId\<close>,
  and no station block at all when \<^verbatim>\<open>features\<close> is missing or falsy. The keys it
  reads with a subscript are required: it raises KeyError at the first collection entry
  that has no \<^verbatim>\<open>id\<close>, and when the first station has no \<^verbatim>\<open>properties\<close>.
\<close>

theorem summary_defaults_and_required_keys:
  "(shaped_answers srv c f st \<longrightarrow>
      print_api_structure srv s = (Inr (), s\<lparr>trace := trace s @ summary_output c f st\<rparr>))
   \<and> (shaped_answers srv c f st \<and> PDict e \<in> set (list_under ''collections'' c)
        \<and> map_of e ''id'' = Some i \<and> map_of e ''title'' = None \<longrightarrow>
      Printed (''- '' @ py_str i @ '': N/A'') \<in> set (trace (snd (print_api_structure srv s))))
   \<and> (shaped_answers srv c f st \<and> PDict e \<in> set (list_under ''collections'' c)
        \<and> map_of e ''description'' = None \<longrightarrow>
      Printed ''  Description: N/A'' \<in> set (trace (snd (print_api_structure srv s))))
   \<and> (shaped_answers srv c f st \<and> list_under ''features'' st = PDict fk # rest
        \<and> map_of fk ''properties'' = Some (PDict pk) \<and> map_of pk ''name'' = None \<longrightarrow>
      Printed (CHR 0x0A # ''Example Station: N/A'')
        \<in> set (trace (snd (print_api_structure srv s))))
   \<and> (shaped_answers srv c f st \<and> list_under ''features'' st = PDict fk # rest
        \<and> map_of fk ''properties'' = Some (PDict pk) \<and> map_of pk ''parameterId'' = None \<longrightarrow>
      trace (snd (print_api_structure srv s)) =
        trace s @ [Printed ''DMI Open Data API Structure'', Printed (replicate 50 CHR ''=''),
                   HttpGet (endpoint ''/collections'' None)]
          @ collections_output c @ [HttpGet (endpoint ''/conformance'' None)]
          @ conformance_output f
          @ [HttpGet (endpoint ''/collections/station/items'' (Some [(''limit'', PInt 1)])),
             Printed (CHR 0x0A # ''Example Station: ''
                        @ py_str (dict_get pk ''name'' (PStr ''N/A''))),
             Printed ''Available Parameters:''])
   \<and> (shaped_answers srv (PDict ck) f st \<and> map_of ck ''collections'' = None \<longrightarrow>
      trace (snd (print_api_structure srv s)) =
        trace s @ [Printed ''DMI Open Data API Structure'', Printed (replicate 50 CHR ''=''),
                   HttpGet (endpoint ''/collections'' None),
                   Printed (CHR 0x0A # ''Available Collections:''),
                   HttpGet (endpoint ''/conformance'' None)]
          @ conformance_output f
          @ [HttpGet (endpoint ''/collections/station/items'' (Some [(''limit'', PInt 1)]))]
          @ station_output st)
   \<and> (shaped_answers srv c (PDict fk) st \<and> map_of fk ''conformsTo'' = None \<longrightarrow>
      trace (snd (print_api_structure srv s)) =
        trace s @ [Printed ''DMI Open Data API Structure'', Printed (replicate 50 CHR ''=''),
                   HttpGet (endpoint ''/collections'' None)]
          @ collections_output c
          @ [HttpGet (endpoint ''/conformance'' None),
             Printed (CHR 0x0A # ''API Conforms to:''),
             HttpGet (endpoint ''/collections/station/items'' (Some [(''limit'', PInt 1)]))]
          @ station_output st)
   \<and> (shaped_answers srv c f (PDict sk) \<and> \<not> py_truthy (dict_get sk ''features'' PNone) \<longrightarrow>
      trace (snd (print_api_structure srv s)) =
        trace s @ [Printed ''DMI Open Data API Structure'', Printed (replicate 50 CHR ''=''),
                   HttpGet (endpoint ''/collections'' None)]
          @ collections_output c @ [HttpGet (endpoint ''/conformance'' None)]
          @ conformance_output f
          @ [HttpGet (endpoint ''/collections/station/items'' (Some [(''limit'', PInt 1)]))])
   \<and> (answers srv (endpoint ''/collections'' None) (PDict ck)
        \<and> map_of ck ''collections'' = Some (PList (pre @ PDict e # post))
        \<and> list_all (is_dict_with (required_key ''id'' any_value)) pre
        \<and> map_of e ''id'' = None \<longrightarrow>
      fst (print_api_structure srv s) = Inl (KeyError (PStr ''id'')))
   \<and> (answers srv (endpoint ''/collections'' None) c \<and> collections_shape c
        \<and> answers srv (endpoint ''/conformance'' None) f \<and> conformance_shape f
        \<and> answers srv (endpoint ''/collections/station/items'' (Some [(''limit'', PInt 1)]))
              (PDict sk)
        \<and> map_of sk ''features'' = Some (PList (PDict fk # rest))
        \<and> map_of fk ''properties'' = None \<longrightarrow>
      fst (print_api_structure srv s) = Inl (KeyError (PStr ''properties'')))"
proof (intro conjI impI)
  assume "shaped_answers srv c f st"
  then show "print_api_structure srv s = (Inr (), s\<lparr>trace := trace s @ summary_output c f st\<rparr>)"
    by (rule summary_run)
next
  assume "shaped_answers srv c f st \<and> PDict e \<in> set (list_under ''collections'' c)
        \<and> map_of e ''id'' = Some i \<and> map_of e ''title'' = None"
  then show "Printed (''- '' @ py_str i @ '': N/A'') \<in> set (trace (snd (print_api_structure srv s)))"
    using title_default_printed [of e c i f st] summary_run [of srv c f st s] by simp
next
  assume "shaped_answers srv c f st \<and> PDict e \<in> set (list_under ''collections'' c)
        \<and> map_of e ''description'' = None"
  then show "Printed ''  Description: N/A'' \<in> set (trace (snd (print_api_structure srv s)))"
    using description_default_printed [of e c f st] summary_run [of srv c f st s] by simp
next
  assume "shaped_answers srv c f st \<and> list_under ''features'' st = PDict fk # rest
        \<and> map_of fk ''properties'' = Some (PDict pk) \<and> map_of pk ''name'' = None"
  then show "Printed (CHR 0x0A # ''Example Station: N/A'')
        \<in> set (trace (snd (print_api_structure srv s)))"
    using name_default_printed [of st fk rest pk c f] summary_run [of srv c f st s] by simp
next
  assume "shaped_answers srv c f st \<and> list_under ''features'' st = PDict fk # rest
        \<and> map_of fk ''properties'' = Some (PDict pk) \<and> map_of pk ''parameterId'' = None"
  then show "trace (snd (print_api_structure srv s)) =
        trace s @ [Printed ''DMI Open Data API Structure'', Printed (replicate 50 CHR ''=''),
                   HttpGet (endpoint ''/collections'' None)]
          @ collections_output c @ [HttpGet (endpoint ''/conformance'' None)]
          @ conformance_output f
          @ [HttpGet (endpoint ''/collections/station/items'' (Some [(''limit'', PInt 1)])),
             Printed (CHR 0x0A # ''Example Station: ''
                        @ py_str (dict_get pk ''name'' (PStr ''N/A''))),
             Printed ''Available Parameters:'']"
    using station_output_known [of st fk rest pk] summary_run [of srv c f st s]
    by (simp add: summary_output_def list_under_def dict_get_def)
next
  assume "shaped_answers srv (PDict ck) f st \<and> map_of ck ''collections'' = None"
  then show "trace (snd (print_api_structure srv s)) =
        trace s @ [Printed ''DMI Open Data API Structure'', Printed (replicate 50 CHR ''=''),
                   HttpGet (endpoint ''/collections'' None),
                   Printed (CHR 0x0A # ''Available Collections:''),
                   HttpGet (endpoint ''/conformance'' None)]
          @ conformance_output f
          @ [HttpGet (endpoint ''/collections/station/items'' (Some [(''limit'', PInt 1)]))]
          @ station_output st"
    using summary_run [of srv "PDict ck" f st s]
    by (simp add: summary_output_def collections_output_def list_under_def dict_get_def)
next
  assume "shaped_answers srv c (PDict fk) st \<and> map_of fk ''conformsTo'' = None"
  then show "trace (snd (print_api_structure srv s)) =
        trace s @ [Printed ''DMI Open Data API Structure'', Printed (replicate 50 CHR ''=''),
                   HttpGet (endpoint ''/collections'' None)]
          @ collections_output c
          @ [HttpGet (endpoint ''/conformance'' None),
             Printed (CHR 0x0A # ''API Conforms to:''),
             HttpGet (endpoint ''/collections/station/items'' (Some [(''limit'', PInt 1)]))]
          @ station_output st"
    using summary_run [of srv c "PDict fk" st s]
    by (simp add: summary_output_def conformance_output_def list_under_def dict_get_def)
next
  assume "shaped_answers srv c f (PDict sk) \<and> \<not> py_truthy (dict_get sk ''features'' PNone)"
  then show "trace (snd (print_api_structure srv s)) =
        trace s @ [Printed ''DMI Open Data API Structure'', Printed (replicate 50 CHR ''=''),
                   HttpGet (endpoint ''/collections'' None)]
          @ collections_output c @ [HttpGet (endpoint ''/conformance'' None)]
          @ conformance_output f
          @ [HttpGet (endpoint ''/collections/station/items'' (Some [(''limit'', PInt 1)]))]"
    using summary_run [of srv c f "PDict sk" s]
    by (simp add: summary_output_def station_output_falsy)
next
  assume "answers srv (endpoint ''/collections'' None) (PDict ck)
        \<and> map_of ck ''collections'' = Some (PList (pre @ PDict e # post))
        \<and> list_all (is_dict_with (required_key ''id'' any_value)) pre
        \<and> map_of e ''id'' = None"
  then show "fst (print_api_structure srv s) = Inl (KeyError (PStr ''id''))"
    using summary_missing_id [of srv ck pre e post s] by blast
next
  assume "answers srv (endpoint ''/collections'' None) c \<and> collections_shape c
        \<and> answers srv (endpoint ''/conformance'' None) f \<and> conformance_shape f
        \<and> answers srv (endpoint ''/collections/station/items'' (Some [(''limit'', PInt 1)]))
              (PDict sk)
        \<and> map_of sk ''features'' = Some (PList (PDict fk # rest))
        \<and> map_of fk ''properties'' = None"
  then show "fst (print_api_structure srv s) = Inl (KeyError (PStr ''properties''))"
    using summary_missing_properties [of srv c f sk fk rest s] by blast
qed


text \<open>
  The theorem at four servers. The first answers with a collection that has only its
  \<^verbatim>\<open>id\<close>, an empty conformance object and a station with empty properties: the run
  prints \<^verbatim>\<open>N/A\<close> three times. The second answers with three empty objects: only the
  headings are printed. The third has a second collection entry without \<^verbatim>\<open>id\<close>, the
  fourth a first station without \<^verbatim>\<open>properties\<close>: both runs raise KeyError.
\<close>

theorem summary_defaults_and_required_keys_witness:
  "shaped_answers
     (stub_endpoints (PDict [(''collections'', PList [PDict [(''id'', PStr ''station'')]])])
        (PDict []) (PDict [(''features'', PList [PDict [(''properties'', PDict [])]])]))
     (PDict [(''collections'', PList [PDict [(''id'', PStr ''station'')]])])
     (PDict []) (PDict [(''features'', PList [PDict [(''properties'', PDict [])]])])
   \<and> map_of [(''id'', PStr ''station'')] ''title'' = None
   \<and> map_of [(''id'', PStr ''station'')] ''description'' = None
   \<and> map_of ([] :: (string \<times> py) list) ''name'' = None
   \<and> map_of ([] :: (string \<times> py) list) ''parameterId'' = None
   \<and> print_api_structure
        (stub_endpoints (PDict [(''collections'', PList [PDict [(''id'', PStr ''station'')]])])
           (PDict []) (PDict [(''features'', PList [PDict [(''properties'', PDict [])]])]))
        fresh_world =
       (Inr (), fresh_world\<lparr>trace :=
          [Printed ''DMI Open Data API Structure'', Printed (replicate 50 CHR ''=''),
           HttpGet (endpoint ''/collections'' None),
           Printed (CHR 0x0A # ''Available Collections:''),
           Printed ''- station: N/A'', Printed ''  Description: N/A'', Printed [],
           HttpGet (endpoint ''/conformance'' None),
           Printed (CHR 0x0A # ''API Conforms to:''),
           HttpGet (endpoint ''/collections/station/items'' (Some [(''limit'', PInt 1)])),
           Printed (CHR 0x0A # ''Example Station: N/A''),
           Printed ''Available Parameters:'']\<rparr>)
   \<and> shaped_answers (stub_endpoints (PDict []) (PDict []) (PDict []))
        (PDict []) (PDict []) (PDict [])
   \<and> \<not> py_truthy (dict_get [] ''features'' PNone)
   \<and> trace (snd (print_api_structure (stub_endpoints (PDict []) (PDict []) (PDict []))
        fresh_world)) =
       [Printed ''DMI Open Data API Structure'', Printed (replicate 50 CHR ''=''),
        HttpGet (endpoint ''/collections'' None),
        Printed (CHR 0x0A # ''Available Collections:''),
        HttpGet (endpoint ''/conformance'' None),
        Printed (CHR 0x0A # ''API Conforms to:''),
        HttpGet (endpoint ''/collections/station/items'' (Some [(''limit'', PInt 1)]))]
   \<and> answers
        (stub_endpoints
           (PDict [(''collections'',
              PList [PDict [(''id'', PStr ''station'')], PDict [(''title'', PStr ''Observations'')]])])
           (PDict []) (PDict []))
        (endpoint ''/collections'' None)
        (PDict [(''collections'',
              PList [PDict [(''id'', PStr ''station'')], PDict [(''title'', PStr ''Observations'')]])])
   \<and> list_all (is_dict_with (required_key ''id'' any_value)) [PDict [(''id'', PStr ''station'')]]
   \<and> map_of [(''title'', PStr ''Observations'')] ''id'' = None
   \<and> fst (print_api_structure
        (stub_endpoints
           (PDict [(''collections'',
              PList [PDict [(''id'', PStr ''station'')], PDict [(''title'', PStr ''Observations'')]])])
           (PDict []) (PDict []))
        fresh_world) = Inl (KeyError (PStr ''id''))
   \<and> answers
        (stub_endpoints (PDict []) (PDict [])
           (PDict [(''type'', PStr ''FeatureCollection''),
                   (''features'', PList [PDict [(''id'', PStr ''06074'')]])]))
        (endpoint ''/collections/station/items'' (Some [(''limit'', PInt 1)]))
        (PDict [(''type'', PStr ''FeatureCollection''),
                (''features'', PList [PDict [(''id'', PStr ''06074'')]])])
   \<and> map_of [(''id'', PStr ''06074'')] ''properties'' = None
   \<and> fst (print_api_structure
        (stub_endpoints (PDict []) (PDict [])
           (PDict [(''type'', PStr ''FeatureCollection''),
                   (''features'', PList [PDict [(''id'', PStr ''06074'')]])]))
        fresh_world) = Inl (KeyError (PStr ''properties''))"
  using summary_defaults_and_required_keys
    [where srv = "stub_endpoints (PDict [(''collections'', PList [PDict [(''id'', PStr ''station'')]])])
        (PDict []) (PDict [(''features'', PList [PDict [(''properties'', PDict [])]])])"
      and c = "PDict [(''collections'', PList [PDict [(''id'', PStr ''station'')]])]"
      and f = "PDict []"
      and st = "PDict [(''features'', PList [PDict [(''properties'', PDict [])]])]"
      and s = fresh_world and e = "[(''id'', PStr ''station'')]" and i = "PStr ''station''"
      and fk = "[(''properties'', PDict [])]" and rest = "[]" and pk = "[]"
      and ck = "[]" and sk = "[]" and pre = "[]" and post = "[]"]
    summary_defaults_and_required_keys
    [where srv = "stub_endpoints (PDict []) (PDict []) (PDict [])"
      and c = "PDict []" and f = "PDict []" and st = "PDict []"
      and s = fresh_world and e = "[]" and i = PNone
      and fk = "[]" and rest = "[]" and pk = "[]"
      and ck = "[]" and sk = "[]" and pre = "[]" and post = "[]"]
    summary_defaults_and_required_keys
    [where srv = "stub_endpoints
           (PDict [(''collections'',
              PList [PDict [(''id'', PStr ''station'')], PDict [(''title'', PStr ''Observations'')]])])
           (PDict []) (PDict [])"
      and c = "PDict []" and f = "PDict []" and st = "PDict []"
      and s = fresh_world and e = "[(''title'', PStr ''Observations'')]" and i = PNone
      and fk = "[]" and rest = "[]" and pk = "[]"
      and ck = "[(''collections'',
              PList [PDict [(''id'', PStr ''station'')], PDict [(''title'', PStr ''Observations'')]])]"
      and sk = "[]" and pre = "[PDict [(''id'', PStr ''station'')]]" and post = "[]"]
    summary_defaults_and_required_keys
    [where srv = "stub_endpoints (PDict []) (PDict [])
           (PDict [(''type'', PStr ''FeatureCollection''),
                   (''features'', PList [PDict [(''id'', PStr ''06074'')]])])"
      and c = "PDict []" and f = "PDict []" and st = "PDict []"
      and s = fresh_world and e = "[]" and i = PNone
      and fk = "[(''id'', PStr ''06074'')]" and rest = "[]" and pk = "[]"
      and ck = "[]"
      and sk = "[(''type'', PStr ''FeatureCollection''),
                   (''features'', PList [PDict [(''id'', PStr ''06074'')]])]"
      and pre = "[]" and post = "[]"]
  by (simp add: shaped_answers_def answers_def stub_endpoints_def stub_server_def endpoint_def
        json_response_def BASE_URL_def collections_shape_def conformance_shape_def
        stations_shape_def station_shape_def optional_key_def required_key_def any_value_def
        summary_output_def collections_output_def conformance_output_def station_output_def
        collection_lines_def list_under_def dict_get_def py_str_def fresh_world_def)

text \<open>
  Claim C4 as stated fails at a collections response whose only entry has a title and
  no \<^verbatim>\<open>id\<close>: the key is missing, and the summary raises KeyError instead of falling
  back on a default.
\<close>

theorem summary_missing_id_counterexample:
  "fst (print_api_structure
     (stub_server
        [(BASE_URL @ ''/collections'',
            json_response True (PDict [(''collections'', PList [PDict [(''title'', PStr ''Stations'')]])]))])
     fresh_world) = Inl (KeyError (PStr ''id''))"
  by (simp add: stub_server_def endpoint_def json_response_def BASE_URL_def
        print_api_structure_def io_bind_def py_print_def emit_def get_collections_def
        requests_get_run io_lift_def response_json_def print_collections_def)

subsection \<open>The browser procedure\<close>

lemma io_call_run:
  "io_call ev r s =
     ((case r of None \<Rightarrow> Inr () | Some e \<Rightarrow> Inl e), s\<lparr>trace := trace s @ [ev]\<rparr>)"
  by (simp add: io_call_def io_bind_def emit_def io_lift_def)

lemma with_open_dump:
  "with_open_w name (\<lambda>f. json_dump v f) s =
     (Inr (), s\<lparr>trace := trace s @ [FileOpened name, FileClosed name],
               files := (files s)(name \<mapsto> json_dumps v 0)\<rparr>)"
  by (simp add: with_open_w_def io_bind_def open_w_def try_finally_def emit_def
        json_dump_def file_write_def)

text \<open>What the body of the try block adds to the trace and does to the files, by outcome.\<close>

lemma extract_and_save_run:
  "extract_and_save b s =
    (let t0 = trace s @ [Printed ''Loading Swagger UI page...'', DriverGet ''https://dmigw.govcloud.dk/v2/metObs/swagger-ui/index.html''] in
     case navigate b ''https://dmigw.govcloud.dk/v2/metObs/swagger-ui/index.html'' of
       Some e \<Rightarrow> (Inl e, s\<lparr>trace := t0\<rparr>)
     | None \<Rightarrow>
        (let t1 = t0 @ [WaitPresence 10 ''swagger-ui''] in
         case wait_presence b 10 ''swagger-ui'' of
           Some e \<Rightarrow> (Inl e, s\<lparr>trace := t1\<rparr>)
         | None \<Rightarrow>
            (let t2 = t1 @ [Slept 3, Printed ''Extracting API specification...'',
                            ExecuteScript ExtractSpecScript] in
             case run_script b ExtractSpecScript of
               Inl e \<Rightarrow> (Inl e, s\<lparr>trace := t2\<rparr>)
             | Inr spec \<Rightarrow>
                 if py_truthy spec then
                   (Inr (), s\<lparr>trace := t2 @ [Printed ''Successfully extracted API specification!'',
                                   FileOpened ''dmi_api_selenium.json'',
                                   FileClosed ''dmi_api_selenium.json'',
                                   Printed ''Saved to: dmi_api_selenium.json''],
                               files := (files s)(''dmi_api_selenium.json'' \<mapsto> json_dumps spec 0)\<rparr>)
                 else
                   (let t3 = t2 @ [Printed ''Could not extract specification from JavaScript'',
                                   ExecuteScript SpecUrlScript] in
                    case run_script b SpecUrlScript of
                      Inl e \<Rightarrow> (Inl e, s\<lparr>trace := t3\<rparr>)
                    | Inr spec_url \<Rightarrow>
                        (Inr (), s\<lparr>trace := t3 @ (if py_truthy spec_url
                              then [Printed (''Found spec URL: '' @ py_str spec_url)] else [])\<rparr>)))))"
  unfolding extract_and_save_def Let_def
  by (simp add: io_bind_def py_print_def emit_def driver_get_def wait_until_present_def
        io_call_run time_sleep_def execute_script_def io_lift_def with_open_dump io_return_def
        split: option.splits sum.splits)

lemma extract_and_save_no_quit:
  "\<exists>evs. trace (snd (extract_and_save b s)) = trace s @ evs \<and> DriverQuit \<notin> set evs"
  by (simp add: extract_and_save_run Let_def split: option.splits sum.splits)

lemma fetch_swagger_spec_run:
  assumes "manager_install b = None" and "chrome_start b = None"
  shows "fetch_swagger_spec b s =
    (let s0 = s\<lparr>trace := trace s @ [ManagerInstall, ChromeStart chrome_options]\<rparr>;
         r = extract_and_save b s0;
         s1 = (snd r)\<lparr>trace := trace (snd r) @ [DriverQuit]\<rparr>
     in case quit_outcome b of None \<Rightarrow> (fst r, s1) | Some e \<Rightarrow> (Inl e, s1))"
  using assms
  by (simp add: fetch_swagger_spec_def io_bind_def io_call_run try_finally_def driver_quit_def
        Let_def split: prod.splits option.splits sum.splits)

text \<open>
  Claim C1. Once the driver has been started, every run of \<^verbatim>\<open>fetch_swagger_spec\<close>
  calls \<^verbatim>\<open>driver.quit\<close> exactly once, as its last action: whether navigation, the
  ready-wait or a script raised, the specification was saved, or none was found. The
  caller gets the outcome of the try block, its exception included, only after that call.
\<close>

theorem browser_quit_on_every_exit:
  assumes "manager_install b = None" and "chrome_start b = None"
  shows "(\<exists>evs. trace (snd (fetch_swagger_spec b s)) =
              trace s @ [ManagerInstall, ChromeStart chrome_options] @ evs @ [DriverQuit]
            \<and> DriverQuit \<notin> set evs)
       \<and> (quit_outcome b = None \<longrightarrow>
            fst (fetch_swagger_spec b s) =
            fst (extract_and_save b
                  (s\<lparr>trace := trace s @ [ManagerInstall, ChromeStart chrome_options]\<rparr>)))"
proof -
  let ?s0 = "s\<lparr>trace := trace s @ [ManagerInstall, ChromeStart chrome_options]\<rparr>"
  obtain evs where evs: "trace (snd (extract_and_save b ?s0)) = trace ?s0 @ evs"
    and nq: "DriverQuit \<notin> set evs"
    using extract_and_save_no_quit [of b ?s0] by blast
  have "trace (snd (fetch_swagger_spec b s)) =
          trace s @ [ManagerInstall, ChromeStart chrome_options] @ evs @ [DriverQuit]"
    using evs by (simp add: fetch_swagger_spec_run [OF assms] Let_def split: option.splits)
  with nq have "\<exists>evs. trace (snd (fetch_swagger_spec b s)) =
              trace s @ [ManagerInstall, ChromeStart chrome_options] @ evs @ [DriverQuit]
            \<and> DriverQuit \<notin> set evs"
    by blast
  moreover have "quit_outcome b = None \<longrightarrow>
      fst (fetch_swagger_spec b s) = fst (extract_and_save b ?s0)"
    by (simp add: fetch_swagger_spec_run [OF assms] Let_def)
  ultimately show ?thesis by blast
qed

text \<open>
  The theorem at three browsers: the page does not load, the marker element never
  appears, the extraction script fails. Each time the exception reaches the caller and
  the trace ends with the call of \<^verbatim>\<open>quit\<close>.
\<close>

theorem browser_quit_on_every_exit_witness:
  "manager_install (stub_browser None (Some TimeoutException) (Inr PNone) (Inr PNone)) = None
   \<and> chrome_start (stub_browser None (Some TimeoutException) (Inr PNone) (Inr PNone)) = None
   \<and> fst (fetch_swagger_spec (stub_browser None (Some TimeoutException) (Inr PNone) (Inr PNone))
        fresh_world) = Inl TimeoutException
   \<and> trace (snd (fetch_swagger_spec (stub_browser None (Some TimeoutException) (Inr PNone) (Inr PNone))
        fresh_world)) =
       [ManagerInstall, ChromeStart chrome_options, Printed ''Loading Swagger UI page...'',
        DriverGet ''https://dmigw.govcloud.dk/v2/metObs/swagger-ui/index.html'',
        WaitPresence 10 ''swagger-ui'', DriverQuit]
   \<and> fst (fetch_swagger_spec (stub_browser (Some WebDriverException) None (Inr PNone) (Inr PNone))
        fresh_world) = Inl WebDriverException
   \<and> trace (snd (fetch_swagger_spec (stub_browser (Some WebDriverException) None (Inr PNone) (Inr PNone))
        fresh_world)) =
       [ManagerInstall, ChromeStart chrome_options, Printed ''Loading Swagger UI page...'',
        DriverGet ''https://dmigw.govcloud.dk/v2/metObs/swagger-ui/index.html'', DriverQuit]
   \<and> fst (fetch_swagger_spec (stub_browser None None (Inl JavascriptException) (Inr PNone))
        fresh_world) = Inl JavascriptException
   \<and> trace (snd (fetch_swagger_spec (stub_browser None None (Inl JavascriptException) (Inr PNone))
        fresh_world)) =
       [ManagerInstall, ChromeStart chrome_options, Printed ''Loading Swagger UI page...'',
        DriverGet ''https://dmigw.govcloud.dk/v2/metObs/swagger-ui/index.html'',
        WaitPresence 10 ''swagger-ui'', Slept 3, Printed ''Extracting API specification...'',
        ExecuteScript ExtractSpecScript, DriverQuit]"
  using browser_quit_on_every_exit
      [of "stub_browser None (Some TimeoutException) (Inr PNone) (Inr PNone)" fresh_world]
    browser_quit_on_every_exit
      [of "stub_browser (Some WebDriverException) None (Inr PNone) (Inr PNone)" fresh_world]
    browser_quit_on_every_exit
      [of "stub_browser None None (Inl JavascriptException) (Inr PNone)" fresh_world]
  by (simp add: stub_browser_def fresh_world_def fetch_swagger_spec_run extract_and_save_run Let_def)

text \<open>
  Claim C10. When the page has loaded and the extraction script has handed back a value,
  \<^verbatim>\<open>dmi_api_selenium.json\<close> is written, with the serialised value, exactly when the
  value is truthy; the second script, which asks for the specification's URL, is run
  exactly when it is not. A falsy value that is not \<^verbatim>\<open>None\<close> (an empty object, an
  empty string) gives the very run that \<^verbatim>\<open>None\<close> gives.
\<close>

theorem spec_saved_iff_truthy:
  assumes "manager_install b = None" and "chrome_start b = None"
    and "navigate b ''https://dmigw.govcloud.dk/v2/metObs/swagger-ui/index.html'' = None"
    and "wait_presence b 10 ''swagger-ui'' = None"
    and "run_script b ExtractSpecScript = Inr spec"
  shows "files (snd (fetch_swagger_spec b s)) =
           (if py_truthy spec
            then (files s)(''dmi_api_selenium.json'' \<mapsto> json_dumps spec 0) else files s)
       \<and> (FileOpened ''dmi_api_selenium.json''
             \<in> set (drop (length (trace s)) (trace (snd (fetch_swagger_spec b s))))
           \<longleftrightarrow> py_truthy spec)
       \<and> (ExecuteScript SpecUrlScript
             \<in> set (drop (length (trace s)) (trace (snd (fetch_swagger_spec b s))))
           \<longleftrightarrow> \<not> py_truthy spec)
       \<and> (\<not> py_truthy spec \<longrightarrow>
             fetch_swagger_spec b s =
             fetch_swagger_spec (b\<lparr>run_script := (run_script b)(ExtractSpecScript := Inr PNone)\<rparr>) s)"
  using assms
  by (simp add: fetch_swagger_spec_run extract_and_save_run Let_def
        split: option.splits sum.splits)

text \<open>
  The theorem at an empty object, which is falsy and leaves no file, and at a small
  document, which is saved; with the whole trace of each run.
\<close>

theorem spec_saved_iff_truthy_witness:
  "\<not> py_truthy (PDict []) \<and> py_truthy (PDict [(''openapi'', PStr ''3.0.1'')])
   \<and> files (snd (fetch_swagger_spec (stub_browser None None (Inr (PDict [])) (Inr PNone)) fresh_world))
        ''dmi_api_selenium.json'' = None
   \<and> trace (snd (fetch_swagger_spec (stub_browser None None (Inr (PDict [])) (Inr PNone)) fresh_world)) =
       [ManagerInstall, ChromeStart chrome_options, Printed ''Loading Swagger UI page...'',
        DriverGet ''https://dmigw.govcloud.dk/v2/metObs/swagger-ui/index.html'',
        WaitPresence 10 ''swagger-ui'', Slept 3, Printed ''Extracting API specification...'',
        ExecuteScript ExtractSpecScript,
        Printed ''Could not extract specification from JavaScript'',
        ExecuteScript SpecUrlScript, DriverQuit]
   \<and> files (snd (fetch_swagger_spec
        (stub_browser None None (Inr (PDict [(''openapi'', PStr ''3.0.1'')])) (Inr PNone)) fresh_world))
        ''dmi_api_selenium.json'' = Some (json_dumps (PDict [(''openapi'', PStr ''3.0.1'')]) 0)
   \<and> trace (snd (fetch_swagger_spec
        (stub_browser None None (Inr (PDict [(''openapi'', PStr ''3.0.1'')])) (Inr PNone)) fresh_world)) =
       [ManagerInstall, ChromeStart chrome_options, Printed ''Loading Swagger UI page...'',
        DriverGet ''https://dmigw.govcloud.dk/v2/metObs/swagger-ui/index.html'',
        WaitPresence 10 ''swagger-ui'', Slept 3, Printed ''Extracting API specification...'',
        ExecuteScript ExtractSpecScript,
        Printed ''Successfully extracted API specification!'',
        FileOpened ''dmi_api_selenium.json'', FileClosed ''dmi_api_selenium.json'',
        Printed ''Saved to: dmi_api_selenium.json'', DriverQuit]"
  using spec_saved_iff_truthy [of "stub_browser None None (Inr (PDict [])) (Inr PNone)" "PDict []" fresh_world]
    spec_saved_iff_truthy [of "stub_browser None None (Inr (PDict [(''openapi'', PStr ''3.0.1'')])) (Inr PNone)"
       "PDict [(''openapi'', PStr ''3.0.1'')]" fresh_world]
  by (simp add: stub_browser_def fresh_world_def fetch_swagger_spec_run extract_and_save_run Let_def)

subsection \<open>The extraction script\<close>

lemma js_prop_truthy: "js_truthy v \<Longrightarrow> js_prop v p = Returns (js_member v p)"
  by (cases v) simp_all

lemma js_path_lookup: "js_truthy (js_lookup v ps) \<Longrightarrow> js_path v ps = Returns (js_lookup v ps)"
proof (induction ps arbitrary: v)
  case Nil
  then show ?case by simp
next
  case (Cons p ps)
  then have v: "js_truthy v" by (cases "js_truthy v") simp_all
  with Cons show ?case by (simp add: js_prop_truthy js_then_def)
qed

lemma guard1: "js_truthy w \<Longrightarrow> js_path w [a] = Returns (js_lookup w [a])"
  by (simp add: js_prop_truthy js_then_def)

lemma guard2:
  "js_truthy w \<Longrightarrow> js_and (js_path w [a]) (js_path w [a, b]) = Returns (js_lookup w [a, b])"
  by (simp add: js_prop_truthy js_then_def js_and_def)

lemma guard3:
  "js_truthy w \<Longrightarrow>
     js_and (js_and (js_path w [a]) (js_path w [a, b])) (js_path w [a, b, c]) =
       Returns (js_lookup w [a, b, c])"
  by (simp add: js_prop_truthy js_then_def js_and_def)

lemma guard_state:
  "js_and (js_and (Returns st) (js_path st [a])) (js_path st [a, b]) =
     Returns (js_lookup st [a, b])"
  by (simp add: js_prop_truthy js_then_def js_and_def)

lemma js_if_Returns: "js_if (Returns v) t e = (if js_truthy v then t else e)"
  by (simp add: js_if_def js_then_def)

lemma js_and_Returns: "js_and (Returns v) b = (if js_truthy v then b else Returns v)"
  by (simp add: js_and_def js_then_def)

lemma js_then_Returns: "js_then (Returns v) f = f v"
  by (simp add: js_then_def)

lemma window_truthy: "js_truthy (JObject pg None)"
  by simp

lemma found_cases:
  "(case found r of Returns (Some v) \<Rightarrow> Returns v | Returns None \<Rightarrow> k
      | Throws e \<Rightarrow> Throws e | Hangs \<Rightarrow> Hangs) = r"
  by (cases r) (simp_all add: found_def js_then_def)

lemma extract_is_first_match: "extract_spec_script pg = first_match strategies pg"
proof -
  let ?w = "JObject pg None"
  let ?g1 = "js_lookup ?w [''ui'', ''specSelectors'', ''specJson'']"
  let ?g2 = "js_lookup ?w [''ui'', ''spec'']"
  let ?g3 = "js_lookup ?w [''swaggerSpec'']"
  let ?g4 = "js_lookup ?w [''ui'', ''getState'']"
  have lhs: "extract_spec_script pg =
     (if js_truthy ?g1 then js_call ?g1
      else if js_truthy ?g2 then js_call ?g2
      else if js_truthy ?g3 then Returns ?g3
      else js_then (if js_truthy ?g4 then js_call ?g4 else Returns ?g4) (\<lambda>state.
             if js_truthy (js_lookup state [''spec'', ''json''])
             then Returns (js_lookup state [''spec'', ''json'']) else Returns JNull))"
  proof -
    have c1: "js_and (js_and (js_path ?w [''ui'']) (js_path ?w [''ui'', ''specSelectors'']))
                (js_path ?w [''ui'', ''specSelectors'', ''specJson'']) = Returns ?g1"
      by (rule guard3 [OF window_truthy])
    have c2: "js_and (js_path ?w [''ui'']) (js_path ?w [''ui'', ''spec'']) = Returns ?g2"
      by (rule guard2 [OF window_truthy])
    have c3: "js_path ?w [''swaggerSpec''] = Returns ?g3"
      by (rule guard1 [OF window_truthy])
    have c4: "js_and (js_path ?w [''ui'']) (js_path ?w [''ui'', ''getState'']) = Returns ?g4"
      by (rule guard2 [OF window_truthy])
    have p1: "js_truthy ?g1 \<Longrightarrow>
        js_then (js_path ?w [''ui'', ''specSelectors'', ''specJson'']) js_call = js_call ?g1"
      by (simp only: js_path_lookup js_then_Returns)
    have p2: "js_truthy ?g2 \<Longrightarrow> js_then (js_path ?w [''ui'', ''spec'']) js_call = js_call ?g2"
      by (simp only: js_path_lookup js_then_Returns)
    have p4: "js_truthy ?g4 \<Longrightarrow> js_then (js_path ?w [''ui'', ''getState'']) js_call = js_call ?g4"
      by (simp only: js_path_lookup js_then_Returns)
    have p5: "\<And>state. js_truthy (js_lookup state [''spec'', ''json'']) \<Longrightarrow>
        js_path state [''spec'', ''json''] = Returns (js_lookup state [''spec'', ''json''])"
      by (rule js_path_lookup)
    show ?thesis
      unfolding extract_spec_script_def Let_def c1 c2 c3 c4 guard_state
      unfolding js_if_Returns js_and_Returns
      using p1 p2 p4 p5 by (simp del: js_lookup.simps js_path.simps cong: if_cong)
  qed
  have rhs: "first_match strategies pg =
     (if js_truthy ?g1 then js_call ?g1
      else if js_truthy ?g2 then js_call ?g2
      else if js_truthy ?g3 then Returns ?g3
      else js_then (if js_truthy ?g4 then js_call ?g4 else Returns ?g4) (\<lambda>state.
             if js_truthy (js_lookup state [''spec'', ''json''])
             then Returns (js_lookup state [''spec'', ''json'']) else Returns JNull))"
    unfolding strategies_def
    apply (simp add: selector_function_def direct_property_def global_variable_def
        nested_state_def Let_def found_cases del: js_lookup.simps)
    apply (simp add: js_then_def del: js_lookup.simps split: outcome.splits)
    done
  show ?thesis by (simp only: lhs rhs)
qed

text \<open>
  Claim C2, as amended. The extraction script is the four lookup strategies tried in the
  fixed order selector function, direct property, global variable, nested state: it
  returns the value of the first strategy that finds one, provided no strategy tried up
  to there fails, and it returns null when all four are tried and none finds a value. A
  strategy fails, and the script with it, when the truthy value it is about to call is
  not a function or when the call throws or does not return.
\<close>

theorem extract_script_is_first_match:
  "extract_spec_script pg = first_match strategies pg
   \<and> (selector_function pg = Returns None \<and> direct_property pg = Returns None
        \<and> global_variable pg = Returns None \<and> nested_state pg = Returns None
      \<longrightarrow> extract_spec_script pg = Returns JNull)"
  by (simp add: extract_is_first_match strategies_def)

text \<open>
  The theorem at a page whose \<^verbatim>\<open>ui\<close> object exposes nothing, where the script
  returns null, and at a page whose \<^verbatim>\<open>ui.specSelectors.specJson\<close> is a function
  returning a document, which the script returns.
\<close>

theorem extract_script_is_first_match_witness:
  "selector_function [(''ui'', JObject [] None)] = Returns None
   \<and> direct_property [(''ui'', JObject [] None)] = Returns None
   \<and> global_variable [(''ui'', JObject [] None)] = Returns None
   \<and> nested_state [(''ui'', JObject [] None)] = Returns None
   \<and> extract_spec_script [(''ui'', JObject [] None)] = Returns JNull
   \<and> extract_spec_script
        [(''ui'', JObject [(''specSelectors'', JObject [(''specJson'',
            JObject [] (Some (Returns (JObject [(''openapi'', JStr ''3.0.1'')] None))))] None)] None),
         (''swaggerSpec'', JStr ''other'')] =
       Returns (JObject [(''openapi'', JStr ''3.0.1'')] None)"
  using extract_script_is_first_match [of "[(''ui'', JObject [] None)]"]
    extract_script_is_first_match
      [of "[(''ui'', JObject [(''specSelectors'', JObject [(''specJson'',
            JObject [] (Some (Returns (JObject [(''openapi'', JStr ''3.0.1'')] None))))] None)] None),
           (''swaggerSpec'', JStr ''other'')]"]
  by (simp add: strategies_def selector_function_def direct_property_def global_variable_def
        nested_state_def found_def js_then_def)

text \<open>
  Claim C2 as stated fails at two pages. On the first, \<^verbatim>\<open>ui.getState\<close> is the
  number 1: no strategy finds a value, yet the script does not return null, it raises a
  TypeError. On the second, \<^verbatim>\<open>ui.specSelectors.specJson\<close> is a string and
  \<^verbatim>\<open>swaggerSpec\<close> holds a document: the global-variable strategy finds it, yet the
  script raises a TypeError instead of returning it.
\<close>

theorem extract_script_raises_counterexample:
  "selector_function [(''ui'', JObject [(''getState'', JNum 1)] None)] = Returns None
   \<and> direct_property [(''ui'', JObject [(''getState'', JNum 1)] None)] = Returns None
   \<and> global_variable [(''ui'', JObject [(''getState'', JNum 1)] None)] = Returns None
   \<and> nested_state [(''ui'', JObject [(''getState'', JNum 1)] None)] = Throws ''TypeError''
   \<and> extract_spec_script [(''ui'', JObject [(''getState'', JNum 1)] None)] = Throws ''TypeError''
   \<and> global_variable
        [(''ui'', JObject [(''specSelectors'', JObject [(''specJson'', JStr ''x'')] None)] None),
         (''swaggerSpec'', JObject [(''openapi'', JStr ''3.0.1'')] None)] =
       Returns (Some (JObject [(''openapi'', JStr ''3.0.1'')] None))
   \<and> extract_spec_script
        [(''ui'', JObject [(''specSelectors'', JObject [(''specJson'', JStr ''x'')] None)] None),
         (''swaggerSpec'', JObject [(''openapi'', JStr ''3.0.1'')] None)] =
       Throws ''TypeError''"
  by (simp add: extract_spec_script_def selector_function_def direct_property_def
        global_variable_def nested_state_def found_def js_then_def js_and_def js_if_def Let_def)

end
